theory Spec2Isabelle
  imports Main "HOL-Library.Word"
begin

unbundle bit_operations_syntax

section \<open>Bytes and strings\<close>

text \<open>
  A Go \<^verbatim>\<open>string\<close> and a Go \<^verbatim>\<open>[]byte\<close> are both sequences of 8-bit bytes, and the
  conversions \<^verbatim>\<open>[]byte(s)\<close> and \<^verbatim>\<open>string(b)\<close> copy the bytes unchanged. Both are
  modelled by \<^typ>\<open>char list\<close> (a HOL \<^typ>\<open>char\<close> is exactly one byte), so that the
  conversions are the identity.
\<close>

type_synonym byte = char
type_synonym bytes = "char list"

definition byte_val :: "byte \<Rightarrow> nat" where
  "byte_val c = of_char c"

definition byte_of :: "nat \<Rightarrow> byte" where
  "byte_of n = char_of n"

text \<open>Big-endian encoding of a number in exactly \<open>n\<close> bytes (higher bytes are cut off).\<close>

fun be_bytes :: "nat \<Rightarrow> nat \<Rightarrow> bytes" where
  "be_bytes 0 v = []"
| "be_bytes (Suc n) v = be_bytes n (v div 256) @ [byte_of v]"

definition be_val :: "bytes \<Rightarrow> nat" where
  "be_val bs = foldl (\<lambda>a c. a * 256 + byte_val c) 0 bs"

text \<open>Cutting a sequence into consecutive blocks of \<open>n\<close> elements.\<close>

fun chunks :: "nat \<Rightarrow> 'a list \<Rightarrow> 'a list list" where
  "chunks n xs = (if n = 0 \<or> xs = [] then [] else take n xs # chunks n (drop n xs))"

declare chunks.simps [simp del]

section \<open>Library functions used by the facilitator client\<close>

subsection \<open>\<^verbatim>\<open>crypto/sha256\<close>\<close>

type_synonym w32 = "32 word"

type_synonym sha_state = "w32 \<times> w32 \<times> w32 \<times> w32 \<times> w32 \<times> w32 \<times> w32 \<times> w32"

text \<open>
  The round constants and the initial hash value of FIPS 180-4 (the table \<^verbatim>\<open>_K\<close> and
  the values \<^verbatim>\<open>init0\<close> to \<^verbatim>\<open>init7\<close> of the Go package), as decimal numerals.
\<close>

definition sha256_K :: "w32 list" where
  "sha256_K =
    [1116352408, 1899447441, 3049323471, 3921009573, 961987163, 1508970993, 2453635748, 2870763221,
     3624381080, 310598401, 607225278, 1426881987, 1925078388, 2162078206, 2614888103, 3248222580,
     3835390401, 4022224774, 264347078, 604807628, 770255983, 1249150122, 1555081692, 1996064986,
     2554220882, 2821834349, 2952996808, 3210313671, 3336571891, 3584528711, 113926993, 338241895,
     666307205, 773529912, 1294757372, 1396182291, 1695183700, 1986661051, 2177026350, 2456956037,
     2730485921, 2820302411, 3259730800, 3345764771, 3516065817, 3600352804, 4094571909, 275423344,
     430227734, 506948616, 659060556, 883997877, 958139571, 1322822218, 1537002063, 1747873779,
     1955562222, 2024104815, 2227730452, 2361852424, 2428436474, 2756734187, 3204031479, 3329325298]"

definition sha256_init :: sha_state where
  "sha256_init =
    (1779033703, 3144134277, 1013904242, 2773480762, 1359893119, 2600822924, 528734635, 1541459225)"

definition sha_ch :: "w32 \<Rightarrow> w32 \<Rightarrow> w32 \<Rightarrow> w32" where
  "sha_ch x y z = (x AND y) XOR (NOT x AND z)"

definition sha_maj :: "w32 \<Rightarrow> w32 \<Rightarrow> w32 \<Rightarrow> w32" where
  "sha_maj x y z = (x AND y) XOR (x AND z) XOR (y AND z)"

definition sha_bsig0 :: "w32 \<Rightarrow> w32" where
  "sha_bsig0 x = word_rotr 2 x XOR word_rotr 13 x XOR word_rotr 22 x"

definition sha_bsig1 :: "w32 \<Rightarrow> w32" where
  "sha_bsig1 x = word_rotr 6 x XOR word_rotr 11 x XOR word_rotr 25 x"

definition sha_ssig0 :: "w32 \<Rightarrow> w32" where
  "sha_ssig0 x = word_rotr 7 x XOR word_rotr 18 x XOR drop_bit 3 x"

definition sha_ssig1 :: "w32 \<Rightarrow> w32" where
  "sha_ssig1 x = word_rotr 17 x XOR word_rotr 19 x XOR drop_bit 10 x"

text \<open>The message schedule: the 16 words of a block, extended to 64 words.\<close>

fun sha_extend :: "nat \<Rightarrow> w32 list \<Rightarrow> w32 list" where
  "sha_extend 0 w = w"
| "sha_extend (Suc n) w =
     (let t = length w in
      sha_extend n
        (w @ [sha_ssig1 (w ! (t - 2)) + w ! (t - 7) + sha_ssig0 (w ! (t - 15)) + w ! (t - 16)]))"

definition sha_schedule :: "bytes \<Rightarrow> w32 list" where
  "sha_schedule block = sha_extend 48 (map (\<lambda>b. word_of_nat (be_val b)) (chunks 4 block))"

fun sha_round :: "sha_state \<Rightarrow> w32 \<times> w32 \<Rightarrow> sha_state" where
  "sha_round (a, b, c, d, e, f, g, h) (k, w) =
     (let t1 = h + sha_bsig1 e + sha_ch e f g + k + w;
          t2 = sha_bsig0 a + sha_maj a b c
      in (t1 + t2, a, b, c, d + t1, e, f, g))"

fun sha_add :: "sha_state \<Rightarrow> sha_state \<Rightarrow> sha_state" where
  "sha_add (a, b, c, d, e, f, g, h) (a', b', c', d', e', f', g', h') =
     (a + a', b + b', c + c', d + d', e + e', f + f', g + g', h + h')"

definition sha_compress :: "sha_state \<Rightarrow> bytes \<Rightarrow> sha_state" where
  "sha_compress H block = sha_add H (foldl sha_round H (zip sha256_K (sha_schedule block)))"

text \<open>
  Padding: a byte \<open>0x80\<close>, zero bytes up to 56 modulo 64, and the length of the message in
  bits as a 64-bit big-endian number (the implementation keeps the length in a
  \<^verbatim>\<open>uint64\<close>).
\<close>

definition sha_pad :: "bytes \<Rightarrow> bytes" where
  "sha_pad m =
     m @ [byte_of 0x80] @ replicate ((119 - length m mod 64) mod 64) (byte_of 0)
       @ be_bytes 8 ((8 * length m) mod 2 ^ 64)"

fun sha_output :: "sha_state \<Rightarrow> bytes" where
  "sha_output (a, b, c, d, e, f, g, h) =
     concat (map (\<lambda>x. be_bytes 4 (unat x)) [a, b, c, d, e, f, g, h])"

definition sha256 :: "bytes \<Rightarrow> bytes" where
  "sha256 m = sha_output (foldl sha_compress sha256_init (chunks 64 (sha_pad m)))"

subsection \<open>\<^verbatim>\<open>crypto/hmac\<close> over SHA-256\<close>

definition hmac_key_block :: "bytes \<Rightarrow> bytes" where
  "hmac_key_block key =
     (let k = (if length key > 64 then sha256 key else key)
      in k @ replicate (64 - length k) (byte_of 0))"

definition xor_byte :: "nat \<Rightarrow> byte \<Rightarrow> byte" where
  "xor_byte p c = byte_of (unat ((word_of_nat (byte_val c) :: 8 word) XOR word_of_nat p))"

definition hmac_sha256 :: "bytes \<Rightarrow> bytes \<Rightarrow> bytes" where
  "hmac_sha256 key msg =
     (let kb = hmac_key_block key
      in sha256 (map (xor_byte 0x5c) kb @ sha256 (map (xor_byte 0x36) kb @ msg)))"

subsection \<open>\<^verbatim>\<open>encoding/base64\<close>, standard encoding with padding\<close>

definition base64_alphabet :: string where
  "base64_alphabet = ''ABCDEFGHIJKLMNOPQRSTUVWXYZabcdefghijklmnopqrstuvwxyz0123456789+/''"

definition b64 :: "nat \<Rightarrow> char" where
  "b64 n = base64_alphabet ! (n mod 64)"

fun base64_encode :: "bytes \<Rightarrow> string" where
  "base64_encode [] = []"
| "base64_encode [a] =
     (let v = byte_val a * 65536
      in [b64 (v div 262144), b64 (v div 4096), CHR ''='', CHR ''=''])"
| "base64_encode [a, b] =
     (let v = byte_val a * 65536 + byte_val b * 256
      in [b64 (v div 262144), b64 (v div 4096), b64 (v div 64), CHR ''=''])"
| "base64_encode (a # b # c # rest) =
     (let v = byte_val a * 65536 + byte_val b * 256 + byte_val c
      in [b64 (v div 262144), b64 (v div 4096), b64 (v div 64), b64 v] @ base64_encode rest)"

subsection \<open>\<^verbatim>\<open>strconv.FormatInt(i, 10)\<close> and the verb \<^verbatim>\<open>%d\<close>\<close>

definition digit_char :: "nat \<Rightarrow> char" where
  "digit_char d = ''0123456789'' ! d"

fun nat_digits :: "nat \<Rightarrow> string" where
  "nat_digits n =
     (if n < 10 then [digit_char n] else nat_digits (n div 10) @ [digit_char (n mod 10)])"

declare nat_digits.simps [simp del]

definition FormatInt :: "int \<Rightarrow> string" where
  "FormatInt i = (if i < 0 then CHR ''-'' # nat_digits (nat (- i)) else nat_digits (nat i))"

subsection \<open>\<^verbatim>\<open>strings.TrimSpace\<close> and \<^verbatim>\<open>strings.TrimPrefix\<close>\<close>

text \<open>
  \<^verbatim>\<open>strings.TrimSpace\<close> removes leading and trailing white space as Unicode defines it.
  On the bytes of a string these are the six ASCII characters tab, line feed, vertical
  tab, form feed, carriage return and space, and the UTF-8 encodings of U+0085, U+00A0,
  U+1680, U+2000 to U+200A, U+2028, U+2029, U+202F, U+205F and U+3000.
\<close>

definition space_runes :: "bytes list" where
  "space_runes =
     [[CHR 0x09], [CHR 0x0A], [CHR 0x0B], [CHR 0x0C], [CHR 0x0D], [CHR 0x20],
      [CHR 0xC2, CHR 0x85], [CHR 0xC2, CHR 0xA0], [CHR 0xE1, CHR 0x9A, CHR 0x80],
      [CHR 0xE2, CHR 0x80, CHR 0x80], [CHR 0xE2, CHR 0x80, CHR 0x81],
      [CHR 0xE2, CHR 0x80, CHR 0x82], [CHR 0xE2, CHR 0x80, CHR 0x83],
      [CHR 0xE2, CHR 0x80, CHR 0x84], [CHR 0xE2, CHR 0x80, CHR 0x85],
      [CHR 0xE2, CHR 0x80, CHR 0x86], [CHR 0xE2, CHR 0x80, CHR 0x87],
      [CHR 0xE2, CHR 0x80, CHR 0x88], [CHR 0xE2, CHR 0x80, CHR 0x89],
      [CHR 0xE2, CHR 0x80, CHR 0x8A], [CHR 0xE2, CHR 0x80, CHR 0xA8],
      [CHR 0xE2, CHR 0x80, CHR 0xA9], [CHR 0xE2, CHR 0x80, CHR 0xAF],
      [CHR 0xE2, CHR 0x81, CHR 0x9F], [CHR 0xE3, CHR 0x80, CHR 0x80]]"

text \<open>
  Removing, from the front, every leading byte sequence that \<open>sp\<close> accepts (sequences of
  one to three bytes).
\<close>

fun strip_leading :: "(bytes \<Rightarrow> bool) \<Rightarrow> bytes \<Rightarrow> bytes" where
  "strip_leading sp [] = []"
| "strip_leading sp [a] = (if sp [a] then [] else [a])"
| "strip_leading sp [a, b] =
     (if sp [a] then strip_leading sp [b] else if sp [a, b] then [] else [a, b])"
| "strip_leading sp (a # b # c # r) =
     (if sp [a] then strip_leading sp (b # c # r)
      else if sp [a, b] then strip_leading sp (c # r)
      else if sp [a, b, c] then strip_leading sp r
      else a # b # c # r)"

definition TrimSpace :: "string \<Rightarrow> string" where
  "TrimSpace s =
     rev (strip_leading (\<lambda>w. rev w \<in> set space_runes)
       (rev (strip_leading (\<lambda>w. w \<in> set space_runes) s)))"

definition TrimPrefix :: "string \<Rightarrow> string \<Rightarrow> string" where
  "TrimPrefix s p = (if take (length p) s = p then drop (length p) s else s)"

subsection \<open>\<^verbatim>\<open>net/http\<close>: header keys, requests and responses\<close>

text \<open>
  \<^verbatim>\<open>Header.Set\<close> stores the value under the canonical form of the key: the first letter
  and every letter after a hyphen in upper case, the other letters in lower case. A key
  with a byte that is not a token character is left as it is.
\<close>

definition is_upper :: "char \<Rightarrow> bool" where
  "is_upper c = (65 \<le> byte_val c \<and> byte_val c \<le> 90)"

definition is_lower :: "char \<Rightarrow> bool" where
  "is_lower c = (97 \<le> byte_val c \<and> byte_val c \<le> 122)"

definition is_digit :: "char \<Rightarrow> bool" where
  "is_digit c = (48 \<le> byte_val c \<and> byte_val c \<le> 57)"

definition validHeaderFieldByte :: "char \<Rightarrow> bool" where
  "validHeaderFieldByte c =
     (is_upper c \<or> is_lower c \<or> is_digit c \<or> c \<in> set ''!#$%&*+-.^_`|~'' \<or> c = CHR 0x27)"

fun canonical_from :: "bool \<Rightarrow> string \<Rightarrow> string" where
  "canonical_from upper [] = []"
| "canonical_from upper (c # cs) =
     (let c' = (if upper \<and> is_lower c then byte_of (byte_val c - 32)
                else if \<not> upper \<and> is_upper c then byte_of (byte_val c + 32)
                else c)
      in c' # canonical_from (c' = CHR ''-'') cs)"

definition CanonicalMIMEHeaderKey :: "string \<Rightarrow> string" where
  "CanonicalMIMEHeaderKey s = (if list_all validHeaderFieldByte s then canonical_from True s else s)"

type_synonym header = "string \<rightharpoonup> string list"

definition Header_Set :: "header \<Rightarrow> string \<Rightarrow> string \<Rightarrow> header" where
  "Header_Set h k v = h(CanonicalMIMEHeaderKey k \<mapsto> [v])"

definition Header_Get :: "header \<Rightarrow> string \<Rightarrow> string" where
  "Header_Get h k =
     (case h (CanonicalMIMEHeaderKey k) of None \<Rightarrow> [] | Some [] \<Rightarrow> [] | Some (v # _) \<Rightarrow> v)"

record request =
  req_Method :: string
  req_URL :: string
  req_Header :: header
  req_Body :: bytes

definition set_header :: "request \<Rightarrow> string \<Rightarrow> string \<Rightarrow> request" where
  "set_header req k v = req\<lparr>req_Header := Header_Set (req_Header req) k v\<rparr>"

section \<open>The facilitator client (\<^verbatim>\<open>go/http/facilitator_client.go\<close>)\<close>

subsection \<open>Constants\<close>

definition DefaultFacilitatorURL :: string where
  "DefaultFacilitatorURL = ''https://openapi-test.gateweb3.cc/api/v1/x402''"

definition gateWeb3SigningPath :: string where
  "gateWeb3SigningPath = ''/api/v1/dex''"

definition gateWeb3TargetURISupported :: string where
  "gateWeb3TargetURISupported = ''/v1/x402/supported''"

definition gateWeb3TargetURIVerify :: string where
  "gateWeb3TargetURIVerify = ''/v1/x402/verify''"

definition gateWeb3TargetURISettle :: string where
  "gateWeb3TargetURISettle = ''/v1/x402/settle''"

definition envGateWeb3APIKey :: string where
  "envGateWeb3APIKey = ''GATE_WEB3_API_KEY''"

definition envGateWeb3APISecret :: string where
  "envGateWeb3APISecret = ''GATE_WEB3_API_SECRET''"

definition envGateWeb3Passphrase :: string where
  "envGateWeb3Passphrase = ''GATE_WEB3_PASSPHRASE''"

definition envGateWeb3RealIP :: string where
  "envGateWeb3RealIP = ''GATE_WEB3_REAL_IP''"

definition defaultGateWeb3ForwardedFor :: string where
  "defaultGateWeb3ForwardedFor = ''127.0.0.1''"

definition defaultGateWeb3Passphrase :: string where
  "defaultGateWeb3Passphrase = []"

subsection \<open>Credentials from the environment\<close>

text \<open>
  The process environment is a map from names to values; \<^verbatim>\<open>os.Getenv\<close> returns the empty
  string for a name that is not set.
\<close>

type_synonym environ = "string \<rightharpoonup> string"

definition Getenv :: "environ \<Rightarrow> string \<Rightarrow> string" where
  "Getenv e k = (case e k of None \<Rightarrow> [] | Some v \<Rightarrow> v)"

record gateWeb3Credentials =
  APIKey :: string
  APISecret :: string
  Passphrase :: string
  RealIP :: string

text \<open>\<^verbatim>\<open>loadGateWeb3Credentials\<close>: \<open>None\<close> stands for the result \<^verbatim>\<open>(nil, false)\<close>.\<close>

definition loadGateWeb3Credentials :: "environ \<Rightarrow> gateWeb3Credentials option" where
  "loadGateWeb3Credentials e =
     (let ak = TrimSpace (Getenv e envGateWeb3APIKey);
          sk = TrimSpace (Getenv e envGateWeb3APISecret)
      in if ak = [] \<or> sk = [] then None
         else
           let pass = Getenv e envGateWeb3Passphrase;
               pass = (if pass = [] then defaultGateWeb3Passphrase else pass);
               realIP = Getenv e envGateWeb3RealIP;
               realIP = (if realIP = [] then defaultGateWeb3ForwardedFor else realIP)
           in Some \<lparr>APIKey = ak, APISecret = sk, Passphrase = pass, RealIP = realIP\<rparr>)"

subsection \<open>Signing a request\<close>

text \<open>
  The prehash \<^verbatim>\<open>fmt.Sprintf("%d%s%s", timestamp, gateWeb3SigningPath, string(body))\<close> and
  the signature \<^verbatim>\<open>base64(HMAC-SHA256(secret, prehash))\<close>, with the signing path as an
  argument; \<open>applyGateWeb3Signature\<close> passes the constant.
\<close>

definition gateWeb3_prehash :: "int \<Rightarrow> string \<Rightarrow> bytes \<Rightarrow> string" where
  "gateWeb3_prehash timestamp path body = FormatInt timestamp @ path @ body"

definition gateWeb3_signature :: "string \<Rightarrow> int \<Rightarrow> string \<Rightarrow> bytes \<Rightarrow> string" where
  "gateWeb3_signature secret timestamp path body =
     base64_encode (hmac_sha256 secret (gateWeb3_prehash timestamp path body))"

text \<open>
  What one call reads from outside the program: the environment, the clock
  (\<^verbatim>\<open>time.Now().UnixMilli()\<close>) and the identifier that \<^verbatim>\<open>uuid.NewString()\<close> returns.
\<close>

record outside =
  os_environ :: environ
  now_UnixMilli :: int
  uuid_NewString :: string

definition applyGateWeb3Signature ::
  "'a outside_scheme \<Rightarrow> request \<Rightarrow> bytes \<Rightarrow> string \<Rightarrow> request" where
  "applyGateWeb3Signature w req body targetURI =
     (case loadGateWeb3Credentials (os_environ w) of
        None \<Rightarrow> req
      | Some creds \<Rightarrow>
          let timestamp = now_UnixMilli w;
              signature = gateWeb3_signature (APISecret creds) timestamp gateWeb3SigningPath body;
              req = set_header req ''X-Api-Key'' (APIKey creds);
              req = set_header req ''X-Timestamp'' (FormatInt timestamp);
              req = set_header req ''X-Signature'' signature;
              req = (if Passphrase creds \<noteq> [] then set_header req ''X-Passphrase'' (Passphrase creds)
                     else req);
              req = (if RealIP creds \<noteq> [] then set_header req ''X-Forwarded-For'' (RealIP creds)
                     else req);
              req = set_header req ''X-Request-Id'' (uuid_NewString w)
          in set_header req ''x-target-uri'' (TrimPrefix targetURI ''/''))"

subsection \<open>Errors, generic values, and what the client is given\<close>

text \<open>
  Go error values. \<open>ErrorString\<close> is the result of \<^verbatim>\<open>fmt.Errorf\<close> without the verb
  \<^verbatim>\<open>%w\<close> (the formatted message); \<open>WrapError p e\<close> is the result of
  \<^verbatim>\<open>fmt.Errorf(p + "%w", e)\<close>, which wraps \<open>e\<close>; \<open>VerifyError\<close> and \<open>SettleError\<close> are the
  typed errors that \<^verbatim>\<open>x402.NewVerifyError(reason, payer, network, err)\<close> and
  \<^verbatim>\<open>x402.NewSettleError(reason, payer, network, transaction, err)\<close> build.
\<close>

datatype go_error =
    ErrorString string
  | WrapError string go_error
  | VerifyError string string string go_error
  | SettleError string string string string go_error

text \<open>
  A value of type \<^verbatim>\<open>interface{}\<close> as \<^verbatim>\<open>encoding/json\<close> produces and consumes it. A
  \<^verbatim>\<open>map[string]interface{}\<close> is the list of its entries. \<open>'f\<close> is the type
  \<^verbatim>\<open>float64\<close>, into which the decoder puts every JSON number; \<open>GoInt\<close> is a Go \<^verbatim>\<open>int\<close>.
\<close>

datatype 'f go_value =
    GoNil
  | GoBool bool
  | GoFloat64 'f
  | GoInt int
  | GoString string
  | GoSlice "'f go_value list"
  | GoMap "(string \<times> 'f go_value) list"

text \<open>
  Modelled from the spec: the result types \<^verbatim>\<open>x402.VerifyResponse\<close> and
  \<^verbatim>\<open>x402.SettleResponse\<close>, whose declarations are not among the sources; a verify result
  carries a failure reason and the payer, a settle result a failure reason, the payer,
  the network and the transaction reference. \<open>'s\<close> stands for \<^verbatim>\<open>x402.SupportedResponse\<close>.
\<close>

record VerifyResponse =
  vr_IsValid :: bool
  vr_InvalidReason :: string
  vr_Payer :: string

record SettleResponse =
  sr_Success :: bool
  sr_ErrorReason :: string
  sr_Payer :: string
  sr_Transaction :: string
  sr_Network :: string

record 'a facilitatorAPIResponse =
  Code :: int
  Msg :: string
  Data :: 'a

record response =
  StatusCode :: int
  ReadAll_Body :: "go_error + bytes"

record AuthHeaders =
  ah_Verify :: "(string \<times> string) list"
  ah_Settle :: "(string \<times> string) list"
  ah_Supported :: "(string \<times> string) list"

text \<open>
  The client. \<open>httpClient_Do\<close> is \<^verbatim>\<open>c.httpClient.Do\<close>; \<open>authProvider\<close> is \<open>None\<close> for a
  nil provider, and otherwise the result of \<^verbatim>\<open>GetAuthHeaders(ctx)\<close>. A
  \<^verbatim>\<open>map[string]string\<close> of headers is the list of its entries in the order in which the
  \<^verbatim>\<open>range\<close> loop visits them.
\<close>

record HTTPFacilitatorClient =
  url :: string
  httpClient_Do :: "request \<Rightarrow> go_error + response"
  authProvider :: "(go_error + AuthHeaders) option"
  client_identifier :: string

text \<open>
  Functions of other packages that the client calls: \<^verbatim>\<open>types.DetectVersion\<close>,
  \<^verbatim>\<open>json.Unmarshal\<close> into a \<^verbatim>\<open>map[string]interface{}\<close>, \<^verbatim>\<open>json.Marshal\<close>,
  \<^verbatim>\<open>json.Unmarshal\<close> into each of the three response envelopes, and the error, if any,
  with which \<^verbatim>\<open>http.NewRequestWithContext\<close> refuses a URL.
\<close>

record ('f, 's) env = outside +
  DetectVersion :: "bytes \<Rightarrow> go_error + int"
  Unmarshal_map :: "bytes \<Rightarrow> go_error + 'f go_value"
  Marshal :: "'f go_value \<Rightarrow> go_error + bytes"
  Unmarshal_verify :: "bytes \<Rightarrow> go_error + VerifyResponse facilitatorAPIResponse"
  Unmarshal_settle :: "bytes \<Rightarrow> go_error + SettleResponse facilitatorAPIResponse"
  Unmarshal_supported :: "bytes \<Rightarrow> go_error + 's facilitatorAPIResponse"
  NewRequest_error :: "string \<Rightarrow> go_error option"

definition MethodPost :: string where
  "MethodPost = ''POST''"

definition StatusOK :: int where
  "StatusOK = 200"

definition NewRequestWithContext ::
  "('f, 's) env \<Rightarrow> string \<Rightarrow> string \<Rightarrow> bytes \<Rightarrow> go_error + request" where
  "NewRequestWithContext w method u body =
     (case NewRequest_error w u of
        Some err \<Rightarrow> Inl err
      | None \<Rightarrow> Inr \<lparr>req_Method = method, req_URL = u, req_Header = Map.empty, req_Body = body\<rparr>)"

text \<open>The loop \<^verbatim>\<open>for k, v := range headers { req.Header.Set(k, v) }\<close>.\<close>

definition set_headers :: "request \<Rightarrow> (string \<times> string) list \<Rightarrow> request" where
  "set_headers req kvs = foldl (\<lambda>r (k, v). set_header r k v) req kvs"

text \<open>
  The part that the three operations share after the body is serialised: creating the
  request, the content type, the default signature over \<open>body\<close>, and the headers of the
  custom provider. \<open>what\<close> is the word in the error message (\<open>verify\<close>, \<open>settle\<close>,
  \<open>supported\<close>) and \<open>sel\<close> selects the provider's headers for the operation.
\<close>

definition prepare_request ::
  "('f, 's) env \<Rightarrow> HTTPFacilitatorClient \<Rightarrow> string \<Rightarrow> string \<Rightarrow>
     (AuthHeaders \<Rightarrow> (string \<times> string) list) \<Rightarrow> bytes \<Rightarrow> go_error + request" where
  "prepare_request w c what targetURI sel body =
     (case NewRequestWithContext w MethodPost (url c) body of
        Inl err \<Rightarrow> Inl (WrapError (''failed to create '' @ what @ '' request: '') err)
      | Inr req \<Rightarrow>
          (let req = set_header req ''Content-Type'' ''application/json'';
               req = applyGateWeb3Signature w req body targetURI
           in (case authProvider c of
                 None \<Rightarrow> Inr req
               | Some (Inl err) \<Rightarrow> Inl (WrapError ''failed to get auth headers: '' err)
               | Some (Inr authHeaders) \<Rightarrow> Inr (set_headers req (sel authHeaders)))))"

text \<open>
  The message \<^verbatim>\<open>(http=%d, code=%d, msg=%s)\<close> that the three operations put into their
  errors.
\<close>

definition http_code_msg :: "int \<Rightarrow> int \<Rightarrow> string \<Rightarrow> string" where
  "http_code_msg status code msg =
     ''http='' @ FormatInt status @ '', code='' @ FormatInt code @ '', msg='' @ msg"

definition http_code_msg_plain :: "int \<Rightarrow> int \<Rightarrow> string \<Rightarrow> string" where
  "http_code_msg_plain status code msg =
     ''http='' @ FormatInt status @ '' code='' @ FormatInt code @ '' msg='' @ msg"

subsection \<open>\<^verbatim>\<open>GetSupported\<close>\<close>

text \<open>
  Every operation returns its result together with the list of the requests it has
  passed to \<^verbatim>\<open>httpClient.Do\<close>.
\<close>

definition supported_response :: "('f, 's) env \<Rightarrow> response \<Rightarrow> go_error + 's" where
  "supported_response w resp =
     (case ReadAll_Body resp of
        Inl err \<Rightarrow> Inl (WrapError ''failed to read supported response body: '' err)
      | Inr responseBody \<Rightarrow>
          (case Unmarshal_supported w responseBody of
             Inl err \<Rightarrow>
               Inl (ErrorString (''failed to decode supported response ('' @ FormatInt (StatusCode resp)
                                   @ ''): '' @ responseBody))
           | Inr apiResp \<Rightarrow>
               if StatusCode resp \<noteq> StatusOK \<or> Code apiResp \<noteq> 0
               then Inl (ErrorString (''facilitator supported failed (''
                         @ http_code_msg (StatusCode resp) (Code apiResp) (Msg apiResp) @ '')''))
               else Inr (Data apiResp)))"

definition supported_request :: "('f, 's) env \<Rightarrow> HTTPFacilitatorClient \<Rightarrow> go_error + request" where
  "supported_request w c =
     (let requestBody = GoMap [(''action'', GoString ''x402.supported''), (''params'', GoMap [])]
      in (case Marshal w requestBody of
            Inl err \<Rightarrow> Inl (WrapError ''failed to marshal supported request: '' err)
          | Inr body \<Rightarrow>
              prepare_request w c ''supported'' gateWeb3TargetURISupported ah_Supported body))"

definition GetSupported ::
  "('f, 's) env \<Rightarrow> HTTPFacilitatorClient \<Rightarrow> (go_error + 's) \<times> request list" where
  "GetSupported w c =
     (case supported_request w c of
        Inl err \<Rightarrow> (Inl err, [])
      | Inr req \<Rightarrow>
          (case httpClient_Do c req of
             Inl err \<Rightarrow> (Inl (WrapError ''supported request failed: '' err), [req])
           | Inr resp \<Rightarrow> (supported_response w resp, [req])))"

subsection \<open>\<^verbatim>\<open>verifyHTTP\<close> and \<^verbatim>\<open>Verify\<close>\<close>

definition action_body :: "string \<Rightarrow> int \<Rightarrow> 'f go_value \<Rightarrow> 'f go_value \<Rightarrow> 'f go_value" where
  "action_body action version payloadMap requirementsMap =
     (let params = GoMap [(''x402Version'', GoInt version),
                          (''paymentPayload'', payloadMap),
                          (''paymentRequirements'', requirementsMap)]
      in GoMap [(''action'', GoString action), (''params'', params)])"

definition verify_request ::
  "('f, 's) env \<Rightarrow> HTTPFacilitatorClient \<Rightarrow> int \<Rightarrow> bytes \<Rightarrow> bytes \<Rightarrow> go_error + request" where
  "verify_request w c version payloadBytes requirementsBytes =
     (case Unmarshal_map w payloadBytes of
        Inl err \<Rightarrow> Inl (WrapError ''failed to unmarshal payload: '' err)
      | Inr payloadMap \<Rightarrow>
          (case Unmarshal_map w requirementsBytes of
             Inl err \<Rightarrow> Inl (WrapError ''failed to unmarshal requirements: '' err)
           | Inr requirementsMap \<Rightarrow>
               (case Marshal w (action_body ''x402.verify'' version payloadMap requirementsMap) of
                  Inl err \<Rightarrow> Inl (WrapError ''failed to marshal verify request: '' err)
                | Inr body \<Rightarrow>
                    prepare_request w c ''verify'' gateWeb3TargetURIVerify ah_Verify body)))"

definition verify_response :: "('f, 's) env \<Rightarrow> response \<Rightarrow> go_error + VerifyResponse" where
  "verify_response w resp =
     (case ReadAll_Body resp of
        Inl err \<Rightarrow> Inl (WrapError ''failed to read response body: '' err)
      | Inr responseBody \<Rightarrow>
          (case Unmarshal_verify w responseBody of
             Inl err \<Rightarrow>
               Inl (ErrorString (''facilitator verify failed ('' @ FormatInt (StatusCode resp)
                                   @ ''): '' @ responseBody))
           | Inr apiResp \<Rightarrow>
               if StatusCode resp \<noteq> StatusOK \<or> Code apiResp \<noteq> 0
               then
                 if vr_InvalidReason (Data apiResp) \<noteq> []
                 then Inl (VerifyError (vr_InvalidReason (Data apiResp)) (vr_Payer (Data apiResp)) []
                        (ErrorString (''facilitator returned ''
                           @ http_code_msg_plain (StatusCode resp) (Code apiResp) (Msg apiResp))))
                 else Inl (ErrorString (''facilitator verify failed (''
                        @ http_code_msg (StatusCode resp) (Code apiResp) (Msg apiResp) @ '')''))
               else Inr (Data apiResp)))"

definition verifyHTTP ::
  "('f, 's) env \<Rightarrow> HTTPFacilitatorClient \<Rightarrow> int \<Rightarrow> bytes \<Rightarrow> bytes \<Rightarrow>
     (go_error + VerifyResponse) \<times> request list" where
  "verifyHTTP w c version payloadBytes requirementsBytes =
     (case verify_request w c version payloadBytes requirementsBytes of
        Inl err \<Rightarrow> (Inl err, [])
      | Inr req \<Rightarrow>
          (case httpClient_Do c req of
             Inl err \<Rightarrow> (Inl (WrapError ''verify request failed: '' err), [req])
           | Inr resp \<Rightarrow> (verify_response w resp, [req])))"

definition Verify ::
  "('f, 's) env \<Rightarrow> HTTPFacilitatorClient \<Rightarrow> bytes \<Rightarrow> bytes \<Rightarrow>
     (go_error + VerifyResponse) \<times> request list" where
  "Verify w c payloadBytes requirementsBytes =
     (case DetectVersion w payloadBytes of
        Inl err \<Rightarrow> (Inl (WrapError ''failed to detect version: '' err), [])
      | Inr version \<Rightarrow> verifyHTTP w c version payloadBytes requirementsBytes)"

subsection \<open>\<^verbatim>\<open>settleHTTP\<close> and \<^verbatim>\<open>Settle\<close>\<close>

definition settle_request ::
  "('f, 's) env \<Rightarrow> HTTPFacilitatorClient \<Rightarrow> int \<Rightarrow> bytes \<Rightarrow> bytes \<Rightarrow> go_error + request" where
  "settle_request w c version payloadBytes requirementsBytes =
     (case Unmarshal_map w payloadBytes of
        Inl err \<Rightarrow> Inl (WrapError ''failed to unmarshal payload: '' err)
      | Inr payloadMap \<Rightarrow>
          (case Unmarshal_map w requirementsBytes of
             Inl err \<Rightarrow> Inl (WrapError ''failed to unmarshal requirements: '' err)
           | Inr requirementsMap \<Rightarrow>
               (case Marshal w (action_body ''x402.settle'' version payloadMap requirementsMap) of
                  Inl err \<Rightarrow> Inl (WrapError ''failed to marshal settle request: '' err)
                | Inr body \<Rightarrow>
                    prepare_request w c ''settle'' gateWeb3TargetURISettle ah_Settle body)))"

definition settle_response :: "('f, 's) env \<Rightarrow> response \<Rightarrow> go_error + SettleResponse" where
  "settle_response w resp =
     (case ReadAll_Body resp of
        Inl err \<Rightarrow> Inl (WrapError ''failed to read response body: '' err)
      | Inr responseBody \<Rightarrow>
          (case Unmarshal_settle w responseBody of
             Inl err \<Rightarrow>
               Inl (ErrorString (''facilitator settle failed ('' @ FormatInt (StatusCode resp)
                                   @ ''): '' @ responseBody))
           | Inr apiResp \<Rightarrow>
               if StatusCode resp \<noteq> StatusOK \<or> Code apiResp \<noteq> 0
               then
                 if sr_ErrorReason (Data apiResp) \<noteq> []
                 then Inl (SettleError (sr_ErrorReason (Data apiResp)) (sr_Payer (Data apiResp))
                        (sr_Network (Data apiResp)) (sr_Transaction (Data apiResp))
                        (ErrorString (''facilitator returned ''
                           @ http_code_msg_plain (StatusCode resp) (Code apiResp) (Msg apiResp))))
                 else Inl (ErrorString (''facilitator settle failed (''
                        @ http_code_msg (StatusCode resp) (Code apiResp) (Msg apiResp) @ '')''))
               else Inr (Data apiResp)))"

definition settleHTTP ::
  "('f, 's) env \<Rightarrow> HTTPFacilitatorClient \<Rightarrow> int \<Rightarrow> bytes \<Rightarrow> bytes \<Rightarrow>
     (go_error + SettleResponse) \<times> request list" where
  "settleHTTP w c version payloadBytes requirementsBytes =
     (case settle_request w c version payloadBytes requirementsBytes of
        Inl err \<Rightarrow> (Inl err, [])
      | Inr req \<Rightarrow>
          (case httpClient_Do c req of
             Inl err \<Rightarrow> (Inl (WrapError ''settle request failed: '' err), [req])
           | Inr resp \<Rightarrow> (settle_response w resp, [req])))"

definition Settle ::
  "('f, 's) env \<Rightarrow> HTTPFacilitatorClient \<Rightarrow> bytes \<Rightarrow> bytes \<Rightarrow>
     (go_error + SettleResponse) \<times> request list" where
  "Settle w c payloadBytes requirementsBytes =
     (case DetectVersion w payloadBytes of
        Inl err \<Rightarrow> (Inl (WrapError ''failed to detect version: '' err), [])
      | Inr version \<Rightarrow> settleHTTP w c version payloadBytes requirementsBytes)"

section \<open>Library functions used by the payment scheme\<close>

subsection \<open>\<^verbatim>\<open>math/big\<close>: decimal strings and bytes of an integer\<close>

text \<open>
  \<^verbatim>\<open>new(big.Int).SetString(s, 10)\<close> accepts an optional sign \<open>+\<close> or \<open>-\<close> followed by one or
  more decimal digits, and nothing else; the whole string must be consumed. \<open>None\<close>
  stands for the result \<^verbatim>\<open>(nil, false)\<close>.
\<close>

fun scan_digits :: "nat \<Rightarrow> string \<Rightarrow> nat option" where
  "scan_digits acc [] = Some acc"
| "scan_digits acc (c # cs) =
     (if is_digit c then scan_digits (acc * 10 + (byte_val c - 48)) cs else None)"

definition scan_mantissa :: "string \<Rightarrow> nat option" where
  "scan_mantissa s = (if s = [] then None else scan_digits 0 s)"

definition SetString :: "string \<Rightarrow> int option" where
  "SetString s =
     (case s of
        [] \<Rightarrow> None
      | c # cs \<Rightarrow>
          if c = CHR ''-'' then map_option (\<lambda>n. - int n) (scan_mantissa cs)
          else if c = CHR ''+'' then map_option int (scan_mantissa cs)
          else map_option int (scan_mantissa (c # cs)))"

text \<open>\<^verbatim>\<open>x.String()\<close> is the decimal form, with a minus sign for a negative number.\<close>

definition Int_String :: "int \<Rightarrow> string" where
  "Int_String x = FormatInt x"

text \<open>
  \<^verbatim>\<open>x.Bytes()\<close> is the absolute value of \<open>x\<close> as a big-endian byte sequence without
  leading zero bytes (empty for 0); the sign is dropped.
\<close>

fun nat_bytes :: "nat \<Rightarrow> bytes" where
  "nat_bytes n = (if n = 0 then [] else nat_bytes (n div 256) @ [byte_of (n mod 256)])"

declare nat_bytes.simps [simp del]

definition Int_Bytes :: "int \<Rightarrow> bytes" where
  "Int_Bytes x = nat_bytes (nat \<bar>x\<bar>)"

subsection \<open>\<^verbatim>\<open>encoding/hex\<close>\<close>

datatype hex_error = InvalidByteError char | ErrLength

definition fromHexChar :: "char \<Rightarrow> nat option" where
  "fromHexChar c =
     (let n = byte_val c
      in if 48 \<le> n \<and> n \<le> 57 then Some (n - 48)
         else if 97 \<le> n \<and> n \<le> 102 then Some (n - 87)
         else if 65 \<le> n \<and> n \<le> 70 then Some (n - 55)
         else None)"

text \<open>
  \<^verbatim>\<open>hex.DecodeString\<close> returns the bytes decoded before the first error together with the
  error, if any.
\<close>

fun DecodeString :: "string \<Rightarrow> bytes \<times> hex_error option" where
  "DecodeString [] = ([], None)"
| "DecodeString [p] =
     ([], Some (case fromHexChar p of None \<Rightarrow> InvalidByteError p | Some _ \<Rightarrow> ErrLength))"
| "DecodeString (p # q # r) =
     (case fromHexChar p of
        None \<Rightarrow> ([], Some (InvalidByteError p))
      | Some a \<Rightarrow>
          (case fromHexChar q of
             None \<Rightarrow> ([], Some (InvalidByteError q))
           | Some b \<Rightarrow>
               (case DecodeString r of (bs, e) \<Rightarrow> (byte_of (a * 16 + b) # bs, e))))"

subsection \<open>\<^verbatim>\<open>go-ethereum/common\<close>\<close>

definition has0xPrefix :: "string \<Rightarrow> bool" where
  "has0xPrefix str =
     (length str \<ge> 2 \<and> str ! 0 = CHR ''0'' \<and> (str ! 1 = CHR ''x'' \<or> str ! 1 = CHR ''X''))"

definition Hex2Bytes :: "string \<Rightarrow> bytes" where
  "Hex2Bytes str = fst (DecodeString str)"

definition FromHex :: "string \<Rightarrow> bytes" where
  "FromHex s =
     (let s = (if has0xPrefix s then drop 2 s else s);
          s = (if length s mod 2 = 1 then CHR ''0'' # s else s)
      in Hex2Bytes s)"

definition AddressLength :: nat where
  "AddressLength = 20"

text \<open>
  \<^verbatim>\<open>BytesToAddress\<close>: the last 20 bytes of a longer sequence; a shorter one is copied to
  the right end of the 20 zero bytes.
\<close>

definition BytesToAddress :: "bytes \<Rightarrow> bytes" where
  "BytesToAddress b =
     (let b = (if length b > AddressLength then drop (length b - AddressLength) b else b)
      in replicate (AddressLength - length b) (byte_of 0) @ b)"

definition HexToAddress :: "string \<Rightarrow> bytes" where
  "HexToAddress s = BytesToAddress (FromHex s)"

definition LeftPadBytes :: "bytes \<Rightarrow> nat \<Rightarrow> bytes" where
  "LeftPadBytes bs l =
     (if l \<le> length bs then bs
      else replicate (l - length bs) (byte_of 0) @ bs)"

section \<open>The EVM constants (\<^verbatim>\<open>go/mechanisms/evm/constants.go\<close>)\<close>

record AssetInfo =
  ai_Address :: string
  ai_Name :: string
  ai_Version :: string
  ai_Decimals :: int

record NetworkConfig =
  nc_ChainID :: int
  nc_DefaultAsset :: AssetInfo

definition SchemeExact :: string where
  "SchemeExact = ''exact''"

definition DefaultDecimals :: int where
  "DefaultDecimals = 6"

definition ChainIDGateLayerTestnet :: int where
  "ChainIDGateLayerTestnet = 10087"

definition NetworkConfigs :: "string \<rightharpoonup> NetworkConfig" where
  "NetworkConfigs =
     [''gatelayer_testnet'' \<mapsto>
        \<lparr>nc_ChainID = ChainIDGateLayerTestnet,
         nc_DefaultAsset = \<lparr>ai_Address = ''0x9be8Df37C788B244cFc28E46654aD5Ec28a880AF'',
                            ai_Name = ''USDC'', ai_Version = ''2'',
                            ai_Decimals = DefaultDecimals\<rparr>\<rparr>,
      ''eip155:10087'' \<mapsto>
        \<lparr>nc_ChainID = ChainIDGateLayerTestnet,
         nc_DefaultAsset = \<lparr>ai_Address = ''0x9be8Df37C788B244cFc28E46654aD5Ec28a880AF'',
                            ai_Name = ''USDC'', ai_Version = ''2'',
                            ai_Decimals = DefaultDecimals\<rparr>\<rparr>]"

section \<open>The payment scheme (\<^verbatim>\<open>go/mechanisms/evm/exact/client/scheme.go\<close>)\<close>

subsection \<open>Data\<close>

record ExactEIP3009Authorization =
  From :: string
  To :: string
  Value :: string
  ValidAfter :: string
  ValidBefore :: string
  Nonce :: string

record ExactEIP3009Payload =
  Signature :: string
  Authorization :: ExactEIP3009Authorization

text \<open>
  Modelled from the spec: the types \<^verbatim>\<open>types.PaymentRequirements\<close> and
  \<^verbatim>\<open>types.PaymentPayload\<close>, whose declarations are not among the sources, with the fields
  that the scheme reads and writes. \<open>Extra\<close> is \<open>None\<close> for a nil map. The map that
  \<^verbatim>\<open>evmPayload.ToMap()\<close> builds is represented by the payload it is built from.
\<close>

record 'f PaymentRequirements =
  Scheme :: string
  Network :: string
  Asset :: string
  Amount :: string
  PayTo :: string
  Extra :: "(string \<rightharpoonup> 'f go_value) option"

record PaymentPayload =
  X402Version :: int
  Payload :: ExactEIP3009Payload

record TypedDataDomain =
  td_Name :: string
  td_Version :: string
  td_ChainID :: int
  td_VerifyingContract :: string

text \<open>A field of a typed-data type: its name and its type.\<close>

type_synonym TypedDataField = "string \<times> string"

text \<open>
  A value of the message map passed to \<^verbatim>\<open>SignTypedData\<close>: a string, a \<^verbatim>\<open>*big.Int\<close>
  (\<open>None\<close> for nil) or a byte sequence.
\<close>

datatype message_value = MsgString string | MsgBigInt "int option" | MsgBytes bytes

type_synonym message = "(string \<times> message_value) list"

text \<open>The signing capability \<^verbatim>\<open>evm.ClientEvmSigner\<close>.\<close>

record ClientEvmSigner =
  Address :: string
  SignDigest :: "bytes \<Rightarrow> go_error + bytes"
  SignTypedData ::
    "TypedDataDomain \<Rightarrow> (string \<times> TypedDataField list) list \<Rightarrow> string \<Rightarrow> message
       \<Rightarrow> go_error + bytes"

text \<open>
  The scheme. \<open>ethClient\<close> is \<open>None\<close> for nil, and otherwise the function
  \<^verbatim>\<open>CallContract\<close> of the client, from the called address and the call data to the
  result.
\<close>

record ExactEvmScheme =
  signer :: ClientEvmSigner
  rpcURL :: string
  ethClient :: "(bytes \<Rightarrow> bytes \<Rightarrow> go_error + bytes) option"

text \<open>
  What the scheme uses and the sources do not hold: the functions \<^verbatim>\<open>GetEvmChainId\<close>,
  \<^verbatim>\<open>GetAssetInfo\<close>, \<^verbatim>\<open>CreateNonce\<close> (the result of this call),
  \<^verbatim>\<open>CreateValidityWindow\<close>, \<^verbatim>\<open>HexToBytes\<close> and \<^verbatim>\<open>BytesToHex\<close> of the package
  \<^verbatim>\<open>evm\<close>, the error strings \<^verbatim>\<open>ErrInvalidAmount\<close> and
  \<^verbatim>\<open>ErrFailedToSignAuthorization\<close> of the package \<^verbatim>\<open>client\<close>, and
  \<^verbatim>\<open>crypto.Keccak256\<close> of go-ethereum. They are parameters.
\<close>

record evm_package =
  GetEvmChainId :: "string \<Rightarrow> go_error + int"
  GetAssetInfo :: "string \<Rightarrow> string \<Rightarrow> go_error + AssetInfo"
  CreateNonce :: "go_error + string"
  CreateValidityWindow :: "int \<Rightarrow> int \<times> int"
  HexToBytes :: "string \<Rightarrow> bytes \<times> go_error option"
  BytesToHex :: "bytes \<Rightarrow> string"
  ErrInvalidAmount :: string
  ErrFailedToSignAuthorization :: string
  Keccak256 :: "bytes \<Rightarrow> bytes"

text \<open>\<^verbatim>\<open>time.Hour\<close>, a duration in nanoseconds.\<close>

definition time_Hour :: int where
  "time_Hour = 3600000000000"

text \<open>
  What a call does to the outside, in order: the digests and typed data it hands to the
  signer, and the contract calls it makes.
\<close>

datatype event =
    SignDigestCall bytes
  | SignTypedDataCall TypedDataDomain message
  | CallContractCall bytes bytes

text \<open>A call returns a value and the events, or panics.\<close>

datatype 'a outcome = Panic | Return 'a "event list"

subsection \<open>\<^verbatim>\<open>signWithDomainSeparator\<close>\<close>

definition TransferWithAuthorization_type :: string where
  "TransferWithAuthorization_type =
     ''TransferWithAuthorization(address from,address to,uint256 value,uint256 validAfter,uint256 validBefore,bytes32 nonce)''"

text \<open>
  The digest that \<open>signWithDomainSeparator\<close> computes. Where a number does not parse,
  \<^verbatim>\<open>SetString\<close> has returned a nil pointer and the call of \<^verbatim>\<open>Bytes\<close> on it panics:
  the digest is \<open>None\<close>.
\<close>

definition signWithDomainSeparator_digest ::
  "evm_package \<Rightarrow> ExactEIP3009Authorization \<Rightarrow> bytes \<Rightarrow> bytes option" where
  "signWithDomainSeparator_digest pkg authorization domainSeparator =
     (let typeHash = Keccak256 pkg TransferWithAuthorization_type;
          value = SetString (Value authorization);
          validAfter = SetString (ValidAfter authorization);
          validBefore = SetString (ValidBefore authorization);
          nonceBytes = fst (HexToBytes pkg (Nonce authorization));
          fromAddr = HexToAddress (From authorization);
          toAddr = HexToAddress (To authorization);
          encoded = [];
          encoded = encoded @ typeHash;
          encoded = encoded @ LeftPadBytes fromAddr 32;
          encoded = encoded @ LeftPadBytes toAddr 32
      in case value of
           None \<Rightarrow> None
         | Some value \<Rightarrow>
             (let encoded = encoded @ LeftPadBytes (Int_Bytes value) 32
              in case validAfter of
                   None \<Rightarrow> None
                 | Some validAfter \<Rightarrow>
                     (let encoded = encoded @ LeftPadBytes (Int_Bytes validAfter) 32
                      in case validBefore of
                           None \<Rightarrow> None
                         | Some validBefore \<Rightarrow>
                             (let encoded = encoded @ LeftPadBytes (Int_Bytes validBefore) 32;
                                  encoded = encoded @ nonceBytes;
                                  structHash = Keccak256 pkg encoded
                              in Some (Keccak256 pkg
                                   ([CHR 0x19, CHR 0x01] @ (domainSeparator @ structHash)))))))"

definition signDigest :: "ExactEvmScheme \<Rightarrow> bytes \<Rightarrow> (go_error + bytes) outcome" where
  "signDigest c digest = Return (SignDigest (signer c) digest) [SignDigestCall digest]"

definition signWithDomainSeparator ::
  "evm_package \<Rightarrow> ExactEvmScheme \<Rightarrow> ExactEIP3009Authorization \<Rightarrow> bytes
     \<Rightarrow> (go_error + bytes) outcome" where
  "signWithDomainSeparator pkg c authorization domainSeparator =
     (case signWithDomainSeparator_digest pkg authorization domainSeparator of
        None \<Rightarrow> Panic
      | Some digest \<Rightarrow> signDigest c digest)"

subsection \<open>\<^verbatim>\<open>queryDomainSeparator\<close> and \<^verbatim>\<open>signAuthorization\<close>\<close>

text \<open>
  The call data is the selector of \<^verbatim>\<open>DOMAIN_SEPARATOR()\<close>: the first four bytes of the
  hash of the signature of the method. The ABI text is a constant and parses.
\<close>

definition queryDomainSeparator ::
  "evm_package \<Rightarrow> (bytes \<Rightarrow> bytes \<Rightarrow> go_error + bytes) \<Rightarrow> string
     \<Rightarrow> (go_error + bytes) \<times> event list" where
  "queryDomainSeparator pkg CallContract tokenAddress =
     (let addr = HexToAddress tokenAddress;
          callData = take 4 (Keccak256 pkg ''DOMAIN_SEPARATOR()'')
      in (case CallContract addr callData of
            Inl err \<Rightarrow> Inl err
          | Inr result \<Rightarrow>
              if length result < 32
              then Inl (ErrorString (''invalid DOMAIN_SEPARATOR result length: ''
                          @ FormatInt (int (length result))))
              else Inr (take 32 result),
          [CallContractCall addr callData]))"

definition typed_data_types :: "(string \<times> TypedDataField list) list" where
  "typed_data_types =
     [(''EIP712Domain'',
        [(''name'', ''string''), (''version'', ''string''), (''chainId'', ''uint256''),
         (''verifyingContract'', ''address'')]),
      (''TransferWithAuthorization'',
        [(''from'', ''address''), (''to'', ''address''), (''value'', ''uint256''),
         (''validAfter'', ''uint256''), (''validBefore'', ''uint256''),
         (''nonce'', ''bytes32'')])]"

definition typed_data_message :: "evm_package \<Rightarrow> ExactEIP3009Authorization \<Rightarrow> message" where
  "typed_data_message pkg authorization =
     [(''from'', MsgString (From authorization)),
      (''to'', MsgString (To authorization)),
      (''value'', MsgBigInt (SetString (Value authorization))),
      (''validAfter'', MsgBigInt (SetString (ValidAfter authorization))),
      (''validBefore'', MsgBigInt (SetString (ValidBefore authorization))),
      (''nonce'', MsgBytes (fst (HexToBytes pkg (Nonce authorization))))]"

definition signAuthorization ::
  "evm_package \<Rightarrow> ExactEvmScheme \<Rightarrow> ExactEIP3009Authorization \<Rightarrow> int \<Rightarrow> string \<Rightarrow> string
     \<Rightarrow> string \<Rightarrow> (go_error + bytes) outcome" where
  "signAuthorization pkg c authorization chainID verifyingContract tokenName tokenVersion =
     (let (domainSeparator, queried) =
            (case ethClient c of
               None \<Rightarrow> (None, [])
             | Some CallContract \<Rightarrow>
                 (case queryDomainSeparator pkg CallContract verifyingContract of
                    (Inl err, evs) \<Rightarrow> (None, evs)
                  | (Inr domainSep, evs) \<Rightarrow> (Some domainSep, evs)))
      in case domainSeparator of
           Some domainSeparator \<Rightarrow>
             (case signWithDomainSeparator pkg c authorization domainSeparator of
                Panic \<Rightarrow> Panic
              | Return r evs \<Rightarrow> Return r (queried @ evs))
         | None \<Rightarrow>
             (let domain = \<lparr>td_Name = tokenName, td_Version = tokenVersion, td_ChainID = chainID,
                            td_VerifyingContract = verifyingContract\<rparr>;
                  message = typed_data_message pkg authorization
              in Return (SignTypedData (signer c) domain typed_data_types
                           ''TransferWithAuthorization'' message)
                   (queried @ [SignTypedDataCall domain message])))"

subsection \<open>\<^verbatim>\<open>CreatePaymentPayload\<close>\<close>

definition pinned_network :: string where
  "pinned_network = ''gatelayer_testnet''"

definition pinned_asset :: string where
  "pinned_asset = ''0x9be8Df37C788B244cFc28E46654aD5Ec28a880AF''"

definition pinned_domain_separator_hex :: string where
  "pinned_domain_separator_hex =
     ''2c2d6b621e73a4a094449d1894717413742130fb20149ec48340ca0354d1a707''"

text \<open>The type assertion \<^verbatim>\<open>v.(string)\<close> on an entry of \<open>Extra\<close>.\<close>

definition extra_string :: "(string \<rightharpoonup> 'f go_value) \<Rightarrow> string \<Rightarrow> string option" where
  "extra_string extra k = (case extra k of Some (GoString s) \<Rightarrow> Some s | _ \<Rightarrow> None)"

definition payload_of :: "bytes \<Rightarrow> evm_package \<Rightarrow> ExactEIP3009Authorization \<Rightarrow> PaymentPayload" where
  "payload_of signature pkg authorization =
     \<lparr>X402Version = 2,
      Payload = \<lparr>Signature = BytesToHex pkg signature, Authorization = authorization\<rparr>\<rparr>"

text \<open>
  The last part of \<open>CreatePaymentPayload\<close>, from the comment \<^verbatim>\<open>fallback to standard
  method\<close> on: \<open>before\<close> are the events of the part before it.
\<close>

definition standard_signing ::
  "evm_package \<Rightarrow> ExactEvmScheme \<Rightarrow> ExactEIP3009Authorization \<Rightarrow> int \<Rightarrow> string \<Rightarrow> string
     \<Rightarrow> string \<Rightarrow> event list \<Rightarrow> (go_error + PaymentPayload) outcome" where
  "standard_signing pkg c authorization chainID assetAddress tokenName tokenVersion before =
     (case signAuthorization pkg c authorization chainID assetAddress tokenName tokenVersion of
        Panic \<Rightarrow> Panic
      | Return (Inl err) evs \<Rightarrow>
          Return (Inl (WrapError (ErrFailedToSignAuthorization pkg @ '': '') err)) (before @ evs)
      | Return (Inr signature) evs \<Rightarrow>
          Return (Inr (payload_of signature pkg authorization)) (before @ evs))"

text \<open>
  The token name and version: the entry of \<open>Extra\<close> when it is a string, else the value of
  the asset. The authorization that \<open>CreatePaymentPayload\<close> builds.
\<close>

definition extra_or :: "'f PaymentRequirements \<Rightarrow> string \<Rightarrow> string \<Rightarrow> string" where
  "extra_or requirements k dflt =
     (case Extra requirements of
        None \<Rightarrow> dflt
      | Some extra \<Rightarrow> (case extra_string extra k of Some s \<Rightarrow> s | None \<Rightarrow> dflt))"

definition new_authorization ::
  "evm_package \<Rightarrow> ExactEvmScheme \<Rightarrow> 'f PaymentRequirements \<Rightarrow> int \<Rightarrow> string
     \<Rightarrow> ExactEIP3009Authorization" where
  "new_authorization pkg c requirements value nonce =
     (let (validAfter, validBefore) = CreateValidityWindow pkg time_Hour
      in \<lparr>From = Address (signer c), To = PayTo requirements, Value = Int_String value,
          ValidAfter = Int_String validAfter, ValidBefore = Int_String validBefore,
          Nonce = nonce\<rparr>)"

definition CreatePaymentPayload ::
  "evm_package \<Rightarrow> ExactEvmScheme \<Rightarrow> 'f PaymentRequirements
     \<Rightarrow> (go_error + PaymentPayload) outcome" where
  "CreatePaymentPayload pkg c requirements =
     (let networkStr = Network requirements
      in case GetEvmChainId pkg networkStr of
           Inl err \<Rightarrow> Return (Inl err) []
         | Inr chainID \<Rightarrow>
       (case GetAssetInfo pkg networkStr (Asset requirements) of
           Inl err \<Rightarrow> Return (Inl err) []
         | Inr assetInfo \<Rightarrow>
       (case SetString (Amount requirements) of
           None \<Rightarrow>
             Return (Inl (ErrorString (ErrInvalidAmount pkg @ '': '' @ Amount requirements))) []
         | Some value \<Rightarrow>
       (case CreateNonce pkg of
           Inl err \<Rightarrow> Return (Inl err) []
         | Inr nonce \<Rightarrow>
       (let tokenName = extra_or requirements ''name'' (ai_Name assetInfo);
            tokenVersion = extra_or requirements ''version'' (ai_Version assetInfo);
            authorization = new_authorization pkg c requirements value nonce;
            standard = standard_signing pkg c authorization chainID (ai_Address assetInfo)
                         tokenName tokenVersion
        in if networkStr = pinned_network \<and> ai_Address assetInfo = pinned_asset
           then
             (let domainSeparator = fst (DecodeString pinned_domain_separator_hex)
              in if length domainSeparator = 32
                 then
                   (case signWithDomainSeparator pkg c authorization domainSeparator of
                      Panic \<Rightarrow> Panic
                    | Return (Inr signature) evs \<Rightarrow>
                        Return (Inr (payload_of signature pkg authorization)) evs
                    | Return (Inl err) evs \<Rightarrow> standard evs)
                 else standard [])
           else standard [])))))"

section \<open>Notions used in the statements about the facilitator client\<close>

text \<open>
  A string that consists of white space only: it is a sequence of the byte sequences
  that \<open>sp\<close> accepts, read from the left.
\<close>

fun only_runes :: "(bytes \<Rightarrow> bool) \<Rightarrow> bytes \<Rightarrow> bool" where
  "only_runes sp [] = True"
| "only_runes sp [a] = sp [a]"
| "only_runes sp [a, b] = (if sp [a] then only_runes sp [b] else sp [a, b])"
| "only_runes sp (a # b # c # r) =
     (if sp [a] then only_runes sp (b # c # r)
      else if sp [a, b] then only_runes sp (c # r)
      else sp [a, b, c] \<and> only_runes sp r)"

definition whitespace_only :: "string \<Rightarrow> bool" where
  "whitespace_only s = only_runes (\<lambda>w. w \<in> set space_runes) s"

definition unset_or_whitespace_only :: "environ \<Rightarrow> string \<Rightarrow> bool" where
  "unset_or_whitespace_only e k = (case e k of None \<Rightarrow> True | Some v \<Rightarrow> whitespace_only v)"

text \<open>
  The headers that a custom provider contributes to an operation (none when there is no
  provider), and the request as it is before any authentication: a POST to the client's
  URL with the content type only.
\<close>

definition provider_headers ::
  "HTTPFacilitatorClient \<Rightarrow> (AuthHeaders \<Rightarrow> (string \<times> string) list) \<Rightarrow> (string \<times> string) list" where
  "provider_headers c sel = (case authProvider c of Some (Inr ah) \<Rightarrow> sel ah | _ \<Rightarrow> [])"

definition base_request :: "HTTPFacilitatorClient \<Rightarrow> bytes \<Rightarrow> request" where
  "base_request c body =
     set_header \<lparr>req_Method = MethodPost, req_URL = url c, req_Header = Map.empty, req_Body = body\<rparr>
       ''Content-Type'' ''application/json''"

subsection \<open>A sample environment and client\<close>

text \<open>
  An environment and a client on which the statements are evaluated. The JSON encoder of
  the sample writes the entries of a map in the order of the list and strings without
  escapes; its decoder wraps the bytes; its facilitator answers every request with
  status 200 and an envelope whose code is 1 and whose failure reason is empty.
\<close>

fun join_comma :: "string list \<Rightarrow> string" where
  "join_comma [] = []"
| "join_comma [x] = x"
| "join_comma (x # y # r) = x @ '','' @ join_comma (y # r)"

definition quoted :: "string \<Rightarrow> string" where
  "quoted s = CHR 0x22 # s @ [CHR 0x22]"

fun render :: "unit go_value \<Rightarrow> string" where
  "render GoNil = ''null''"
| "render (GoBool b) = (if b then ''true'' else ''false'')"
| "render (GoFloat64 f) = ''0''"
| "render (GoInt i) = FormatInt i"
| "render (GoString s) = quoted s"
| "render (GoSlice xs) = ''['' @ join_comma (map render xs) @ '']''"
| "render (GoMap kvs) =
     ''{'' @ join_comma (map (\<lambda>kv. quoted (fst kv) @ '':'' @ render (snd kv)) kvs) @ ''}''"

definition sample_env :: "environ \<Rightarrow> (unit, unit) env" where
  "sample_env e =
     \<lparr>os_environ = e, now_UnixMilli = 1700000000000,
      uuid_NewString = ''6ba7b810-9dad-11d1-80b4-00c04fd430c8'',
      DetectVersion = (\<lambda>b. Inr 2),
      Unmarshal_map = (\<lambda>b. Inr (GoMap [(''raw'', GoString b)])),
      Marshal = (\<lambda>v. Inr (render v)),
      Unmarshal_verify = (\<lambda>b. Inr \<lparr>Code = 1, Msg = ''denied'',
         Data = \<lparr>vr_IsValid = False, vr_InvalidReason = [], vr_Payer = []\<rparr>\<rparr>),
      Unmarshal_settle = (\<lambda>b. Inr \<lparr>Code = 1, Msg = ''denied'',
         Data = \<lparr>sr_Success = False, sr_ErrorReason = [], sr_Payer = [],
                  sr_Transaction = [], sr_Network = []\<rparr>\<rparr>),
      Unmarshal_supported = (\<lambda>b. Inr \<lparr>Code = 1, Msg = ''denied'', Data = ()\<rparr>),
      NewRequest_error = (\<lambda>u. None)\<rparr>"

definition sample_client :: HTTPFacilitatorClient where
  "sample_client =
     \<lparr>url = DefaultFacilitatorURL,
      httpClient_Do = (\<lambda>r. Inr \<lparr>StatusCode = 200, ReadAll_Body = Inr ''{}''\<rparr>),
      authProvider = None,
      client_identifier = DefaultFacilitatorURL\<rparr>"

definition env_without_secret :: environ where
  "env_without_secret = [envGateWeb3APIKey \<mapsto> ''ak'', envGateWeb3APISecret \<mapsto> ''  '']"

definition env_with_credentials :: environ where
  "env_with_credentials = [envGateWeb3APIKey \<mapsto> '' ak '', envGateWeb3APISecret \<mapsto> ''sk'']"

section \<open>Notions used in the statements about the payment scheme\<close>

subsection \<open>The digest as the specification words it\<close>

text \<open>
  \<open>leftPad32\<close> puts zero bytes in front of a byte sequence up to the length 32. The
  numbers are given by the big-endian bytes of their absolute value, the addresses by
  their 20 bytes.
\<close>

definition leftPad32 :: "bytes \<Rightarrow> bytes" where
  "leftPad32 b = replicate (32 - length b) (CHR 0x00) @ b"

definition typeHash :: "evm_package \<Rightarrow> bytes" where
  "typeHash pkg = Keccak256 pkg TransferWithAuthorization_type"

definition structHash ::
  "evm_package \<Rightarrow> bytes \<Rightarrow> bytes \<Rightarrow> bytes \<Rightarrow> bytes \<Rightarrow> bytes \<Rightarrow> bytes \<Rightarrow> bytes" where
  "structHash pkg from to val validAfter validBefore nonce =
     Keccak256 pkg (typeHash pkg @ leftPad32 from @ leftPad32 to @ leftPad32 val
                      @ leftPad32 validAfter @ leftPad32 validBefore @ nonce)"

definition signing_digest :: "evm_package \<Rightarrow> bytes \<Rightarrow> bytes \<Rightarrow> bytes" where
  "signing_digest pkg domainSeparator sh = Keccak256 pkg (CHR 0x19 # CHR 0x01 # domainSeparator @ sh)"

text \<open>The digest of an authorization whose three numbers are \<open>v\<close>, \<open>va\<close> and \<open>vb\<close>.\<close>

definition authorization_digest ::
  "evm_package \<Rightarrow> ExactEIP3009Authorization \<Rightarrow> int \<Rightarrow> int \<Rightarrow> int \<Rightarrow> bytes \<Rightarrow> bytes" where
  "authorization_digest pkg a v va vb domainSeparator =
     signing_digest pkg domainSeparator
       (structHash pkg (HexToAddress (From a)) (HexToAddress (To a)) (Int_Bytes v) (Int_Bytes va)
          (Int_Bytes vb) (fst (HexToBytes pkg (Nonce a))))"

subsection \<open>Runs\<close>

text \<open>
  The events of a run, the number of contract calls among them, and the result that the
  signer gave to the last signing request of the run.
\<close>

definition events_of :: "'a outcome \<Rightarrow> event list" where
  "events_of run = (case run of Panic \<Rightarrow> [] | Return r evs \<Rightarrow> evs)"

definition is_chain_query :: "event \<Rightarrow> bool" where
  "is_chain_query ev = (case ev of CallContractCall a d \<Rightarrow> True | _ \<Rightarrow> False)"

definition chain_queries :: "'a outcome \<Rightarrow> nat" where
  "chain_queries run = length (filter is_chain_query (events_of run))"

definition signer_answer :: "ClientEvmSigner \<Rightarrow> event \<Rightarrow> (go_error + bytes) option" where
  "signer_answer s ev =
     (case ev of
        SignDigestCall d \<Rightarrow> Some (SignDigest s d)
      | SignTypedDataCall domain msg \<Rightarrow>
          Some (SignTypedData s domain typed_data_types ''TransferWithAuthorization'' msg)
      | CallContractCall a d \<Rightarrow> None)"

definition pinned_domain_separator :: bytes where
  "pinned_domain_separator = fst (DecodeString pinned_domain_separator_hex)"

text \<open>
  The digest that the pinned path hands to the signer for the authorization that
  \<open>CreatePaymentPayload\<close> builds, and the standard part run on that authorization.
\<close>

definition pinned_digest ::
  "evm_package \<Rightarrow> ExactEvmScheme \<Rightarrow> 'f PaymentRequirements \<Rightarrow> int \<Rightarrow> string \<Rightarrow> bytes" where
  "pinned_digest pkg c requirements v nonce =
     authorization_digest pkg (new_authorization pkg c requirements v nonce) v
       (fst (CreateValidityWindow pkg time_Hour)) (snd (CreateValidityWindow pkg time_Hour))
       pinned_domain_separator"

definition standard_run ::
  "evm_package \<Rightarrow> ExactEvmScheme \<Rightarrow> 'f PaymentRequirements \<Rightarrow> int \<Rightarrow> AssetInfo \<Rightarrow> int
     \<Rightarrow> string \<Rightarrow> event list \<Rightarrow> (go_error + PaymentPayload) outcome" where
  "standard_run pkg c requirements chainID assetInfo v nonce before =
     standard_signing pkg c (new_authorization pkg c requirements v nonce) chainID
       (ai_Address assetInfo) (extra_or requirements ''name'' (ai_Name assetInfo))
       (extra_or requirements ''version'' (ai_Version assetInfo)) before"

text \<open>
  The first event of a run is a digest handed to the signer: this is how a run that
  takes the pinned path begins, and no other run.
\<close>

definition starts_with_digest :: "'a outcome \<Rightarrow> bool" where
  "starts_with_digest run =
     (case events_of run of SignDigestCall d # evs \<Rightarrow> True | _ \<Rightarrow> False)"

subsection \<open>A sample package, signers and requirements\<close>

text \<open>
  A package on which the statements are evaluated: it resolves the networks of
  \<open>NetworkConfigs\<close> and an explicit asset address, has a fixed nonce and validity
  window, and uses SHA-256 in the place of Keccak-256. The first signer signs digests and
  typed data; the second refuses digests and signs typed data; the third refuses both.
\<close>

definition hex_digits :: "bytes \<Rightarrow> string" where
  "hex_digits b =
     concat (map (\<lambda>c. [''0123456789abcdef'' ! (byte_val c div 16),
                         ''0123456789abcdef'' ! (byte_val c mod 16)]) b)"

definition sample_pkg :: evm_package where
  "sample_pkg =
     \<lparr>GetEvmChainId = (\<lambda>n. case NetworkConfigs n of
                              None \<Rightarrow> Inl (ErrorString ''unsupported network'')
                            | Some cfg \<Rightarrow> Inr (nc_ChainID cfg)),
      GetAssetInfo = (\<lambda>n a. case NetworkConfigs n of
                               None \<Rightarrow> Inl (ErrorString ''unsupported network'')
                             | Some cfg \<Rightarrow>
                                 if a = [] then Inr (nc_DefaultAsset cfg)
                                 else Inr ((nc_DefaultAsset cfg)\<lparr>ai_Address := a\<rparr>)),
      CreateNonce = Inr ''0x0101010101010101010101010101010101010101010101010101010101010101'',
      CreateValidityWindow = (\<lambda>d. (1700000000, 1700000000 + d div 1000000000)),
      HexToBytes = (\<lambda>s. case DecodeString (if has0xPrefix s then drop 2 s else s) of
                            (b, None) \<Rightarrow> (b, None)
                          | (b, Some e) \<Rightarrow> ([], Some (ErrorString ''invalid hex string''))),
      BytesToHex = (\<lambda>b. ''0x'' @ hex_digits b),
      ErrInvalidAmount = ''invalid amount'',
      ErrFailedToSignAuthorization = ''failed to sign authorization'',
      Keccak256 = sha256\<rparr>"

definition sample_address :: string where
  "sample_address = ''0x1111111111111111111111111111111111111111''"

definition digest_signature :: bytes where
  "digest_signature = replicate 65 (CHR 0x01)"

definition typed_signature :: bytes where
  "typed_signature = replicate 65 (CHR 0x02)"

definition signer_rejects :: go_error where
  "signer_rejects = ErrorString ''user rejected the request''"

definition full_signer :: ClientEvmSigner where
  "full_signer =
     \<lparr>Address = sample_address, SignDigest = (\<lambda>d. Inr digest_signature),
      SignTypedData = (\<lambda>domain tys prim msg. Inr typed_signature)\<rparr>"

definition typed_only_signer :: ClientEvmSigner where
  "typed_only_signer =
     \<lparr>Address = sample_address, SignDigest = (\<lambda>d. Inl signer_rejects),
      SignTypedData = (\<lambda>domain tys prim msg. Inr typed_signature)\<rparr>"

definition refusing_signer :: ClientEvmSigner where
  "refusing_signer =
     \<lparr>Address = sample_address, SignDigest = (\<lambda>d. Inl signer_rejects),
      SignTypedData = (\<lambda>domain tys prim msg. Inl signer_rejects)\<rparr>"

text \<open>A scheme without a chain connection, and one whose contract call answers 32 bytes.\<close>

definition offline_scheme :: "ClientEvmSigner \<Rightarrow> ExactEvmScheme" where
  "offline_scheme s = \<lparr>signer = s, rpcURL = [], ethClient = None\<rparr>"

definition chain_domain_separator :: bytes where
  "chain_domain_separator = replicate 32 (CHR 0x07)"

definition online_scheme :: "ClientEvmSigner \<Rightarrow> ExactEvmScheme" where
  "online_scheme s =
     \<lparr>signer = s, rpcURL = ''https://rpc.example'',
      ethClient = Some (\<lambda>addr callData. Inr chain_domain_separator)\<rparr>"

definition sample_requirements :: "string \<Rightarrow> string \<Rightarrow> unit PaymentRequirements" where
  "sample_requirements network amount =
     \<lparr>Scheme = SchemeExact, Network = network, Asset = [], Amount = amount,
      PayTo = ''0x2222222222222222222222222222222222222222'', Extra = None\<rparr>"

definition sample_authorization :: "string \<Rightarrow> ExactEIP3009Authorization" where
  "sample_authorization amount =
     \<lparr>From = sample_address, To = ''0x2222222222222222222222222222222222222222'',
      Value = amount, ValidAfter = ''1700000000'', ValidBefore = ''1700003600'',
      Nonce = ''0x0101010101010101010101010101010101010101010101010101010101010101''\<rparr>"

definition sample_domain :: TypedDataDomain where
  "sample_domain =
     \<lparr>td_Name = ''USDC'', td_Version = ''2'', td_ChainID = 10087,
      td_VerifyingContract = ''0x9be8Df37C788B244cFc28E46654aD5Ec28a880AF''\<rparr>"

definition sample_digest :: "string \<Rightarrow> int \<Rightarrow> bytes \<Rightarrow> bytes" where
  "sample_digest amount v domainSeparator =
     authorization_digest sample_pkg (sample_authorization amount) v 1700000000 1700003600
       domainSeparator"

section \<open>Facts about the facilitator client\<close>

lemma canon_keys:
  "CanonicalMIMEHeaderKey ''X-Api-Key'' = ''X-Api-Key''"
  "CanonicalMIMEHeaderKey ''X-Timestamp'' = ''X-Timestamp''"
  "CanonicalMIMEHeaderKey ''X-Signature'' = ''X-Signature''"
  "CanonicalMIMEHeaderKey ''X-Passphrase'' = ''X-Passphrase''"
  "CanonicalMIMEHeaderKey ''X-Forwarded-For'' = ''X-Forwarded-For''"
  "CanonicalMIMEHeaderKey ''X-Request-Id'' = ''X-Request-Id''"
  "CanonicalMIMEHeaderKey ''x-target-uri'' = ''X-Target-Uri''"
  "CanonicalMIMEHeaderKey ''Content-Type'' = ''Content-Type''"
  by code_simp+

lemma strip_leading_only_runes: "only_runes sp s \<Longrightarrow> strip_leading sp s = []"
  by (induction sp s rule: strip_leading.induct) (auto split: if_splits)

lemma TrimSpace_whitespace_only: "whitespace_only s \<Longrightarrow> TrimSpace s = []"
  by (simp add: TrimSpace_def whitespace_only_def strip_leading_only_runes)

lemma TrimSpace_Getenv_blank:
  assumes "unset_or_whitespace_only e k"
  shows "TrimSpace (Getenv e k) = []"
proof (cases "e k")
  case None
  then show ?thesis by (simp add: Getenv_def TrimSpace_def)
next
  case (Some v)
  with assms show ?thesis
    by (simp add: Getenv_def unset_or_whitespace_only_def TrimSpace_whitespace_only)
qed

lemma loadGateWeb3Credentials_None:
  "unset_or_whitespace_only e envGateWeb3APIKey \<or> unset_or_whitespace_only e envGateWeb3APISecret
   \<Longrightarrow> loadGateWeb3Credentials e = None"
  by (auto simp: loadGateWeb3Credentials_def Let_def TrimSpace_Getenv_blank)

lemma applyGateWeb3Signature_None:
  "loadGateWeb3Credentials (os_environ w) = None \<Longrightarrow> applyGateWeb3Signature w req body t = req"
  by (simp add: applyGateWeb3Signature_def)

lemma req_Body_set_header [simp]: "req_Body (set_header r k v) = req_Body r"
  by (simp add: set_header_def)

lemma set_headers_Nil [simp]: "set_headers r [] = r"
  by (simp add: set_headers_def)

lemma req_Body_set_headers [simp]: "req_Body (set_headers r kvs) = req_Body r"
  by (induction kvs arbitrary: r) (auto simp: set_headers_def)

lemma req_Body_apply [simp]: "req_Body (applyGateWeb3Signature w r b t) = req_Body r"
  by (simp add: applyGateWeb3Signature_def Let_def split: option.splits)

lemma prepare_request_Inr:
  "prepare_request w c what t sel body = Inr r \<Longrightarrow>
   r = set_headers (applyGateWeb3Signature w (base_request c body) body t)
         (provider_headers c sel) \<and> req_Body r = body"
  by (auto simp: prepare_request_def NewRequestWithContext_def base_request_def provider_headers_def
      Let_def split: option.splits sum.splits)

lemma prepare_request_body:
  "prepare_request w c what t sel body = Inr r \<Longrightarrow> req_Body r = body"
  by (simp add: prepare_request_Inr)

lemma verify_request_Inr:
  "verify_request w c v pb rb = Inr r \<Longrightarrow>
   \<exists>pm rm. Unmarshal_map w pb = Inr pm \<and> Unmarshal_map w rb = Inr rm \<and>
     Marshal w (action_body ''x402.verify'' v pm rm) = Inr (req_Body r) \<and>
     prepare_request w c ''verify'' gateWeb3TargetURIVerify ah_Verify (req_Body r) = Inr r"
  by (auto simp: verify_request_def split: sum.splits dest: prepare_request_body)

lemma settle_request_Inr:
  "settle_request w c v pb rb = Inr r \<Longrightarrow>
   \<exists>pm rm. Unmarshal_map w pb = Inr pm \<and> Unmarshal_map w rb = Inr rm \<and>
     Marshal w (action_body ''x402.settle'' v pm rm) = Inr (req_Body r) \<and>
     prepare_request w c ''settle'' gateWeb3TargetURISettle ah_Settle (req_Body r) = Inr r"
  by (auto simp: settle_request_def split: sum.splits dest: prepare_request_body)

lemma supported_request_Inr:
  "supported_request w c = Inr r \<Longrightarrow>
     Marshal w (GoMap [(''action'', GoString ''x402.supported''), (''params'', GoMap [])])
       = Inr (req_Body r) \<and>
     prepare_request w c ''supported'' gateWeb3TargetURISupported ah_Supported (req_Body r) = Inr r"
  by (auto simp: supported_request_def Let_def split: sum.splits dest: prepare_request_body)

lemma verifyHTTP_sent:
  "r \<in> set (snd (verifyHTTP w c v pb rb)) \<Longrightarrow>
   verify_request w c v pb rb = Inr r \<and> snd (verifyHTTP w c v pb rb) = [r]"
  by (auto simp: verifyHTTP_def split: sum.splits)

lemma Verify_sent:
  "r \<in> set (snd (Verify w c pb rb)) \<Longrightarrow>
   \<exists>v. DetectVersion w pb = Inr v \<and> verify_request w c v pb rb = Inr r
     \<and> snd (Verify w c pb rb) = [r]"
  by (auto simp: Verify_def split: sum.splits dest: verifyHTTP_sent)

lemma settleHTTP_sent:
  "r \<in> set (snd (settleHTTP w c v pb rb)) \<Longrightarrow>
   settle_request w c v pb rb = Inr r \<and> snd (settleHTTP w c v pb rb) = [r]"
  by (auto simp: settleHTTP_def split: sum.splits)

lemma Settle_sent:
  "r \<in> set (snd (Settle w c pb rb)) \<Longrightarrow>
   \<exists>v. DetectVersion w pb = Inr v \<and> settle_request w c v pb rb = Inr r
     \<and> snd (Settle w c pb rb) = [r]"
  by (auto simp: Settle_def split: sum.splits dest: settleHTTP_sent)

lemma GetSupported_sent:
  "r \<in> set (snd (GetSupported w c)) \<Longrightarrow>
   supported_request w c = Inr r \<and> snd (GetSupported w c) = [r]"
  by (auto simp: GetSupported_def split: sum.splits)

lemma loadGateWeb3Credentials_Some:
  assumes "loadGateWeb3Credentials e = Some creds"
  shows "APIKey creds = TrimSpace (Getenv e envGateWeb3APIKey)"
    and "APISecret creds = TrimSpace (Getenv e envGateWeb3APISecret)"
    and "APIKey creds \<noteq> []" and "APISecret creds \<noteq> []"
    and "Passphrase creds = Getenv e envGateWeb3Passphrase"
    and "RealIP creds = (if Getenv e envGateWeb3RealIP = [] then ''127.0.0.1''
                         else Getenv e envGateWeb3RealIP)"
    and "RealIP creds \<noteq> []"
  using assms
  by (auto simp: loadGateWeb3Credentials_def Let_def defaultGateWeb3Passphrase_def
      defaultGateWeb3ForwardedFor_def split: if_splits)

lemma req_Method_set_header [simp]: "req_Method (set_header r k v) = req_Method r"
  and req_URL_set_header [simp]: "req_URL (set_header r k v) = req_URL r"
  by (simp_all add: set_header_def)

lemma req_Method_set_headers [simp]: "req_Method (set_headers r kvs) = req_Method r"
  by (induction kvs arbitrary: r) (auto simp: set_headers_def)

lemma req_URL_set_headers [simp]: "req_URL (set_headers r kvs) = req_URL r"
  by (induction kvs arbitrary: r) (auto simp: set_headers_def)

lemma req_Method_apply [simp]: "req_Method (applyGateWeb3Signature w r b t) = req_Method r"
  and req_URL_apply [simp]: "req_URL (applyGateWeb3Signature w r b t) = req_URL r"
  by (simp_all add: applyGateWeb3Signature_def Let_def split: option.splits)




subsection \<open>The sample environment and client\<close>

lemmas sample_defs = sample_env_def sample_client_def env_without_secret_def
  env_with_credentials_def envGateWeb3APIKey_def envGateWeb3APISecret_def
  envGateWeb3Passphrase_def envGateWeb3RealIP_def

lemma sample_blank:
  "unset_or_whitespace_only (os_environ (sample_env env_without_secret)) envGateWeb3APISecret"
  by (simp add: unset_or_whitespace_only_def whitespace_only_def space_runes_def sample_defs)

lemma sample_GetSupported_sent:
  "snd (GetSupported (sample_env e) sample_client) \<noteq> []"
  by (simp add: GetSupported_def supported_request_def prepare_request_def
      NewRequestWithContext_def sample_env_def sample_client_def Let_def)

subsection \<open>Decimal numerals: printing and scanning are inverse\<close>

lemma less_10_cases: "n < 10 \<Longrightarrow> n \<in> {0, 1, 2, 3, 4, 5, 6, 7, 8, 9 :: nat}"
  by auto

lemma digit_char_value: "n < 10 \<Longrightarrow> byte_val (digit_char n) = 48 + n"
  by (drule less_10_cases) (auto simp: digit_char_def byte_val_def)

lemma is_digit_digit_char: "n < 10 \<Longrightarrow> is_digit (digit_char n)"
  by (simp add: is_digit_def digit_char_value)

lemma scan_digits_append:
  "scan_digits acc (xs @ ys) =
     (case scan_digits acc xs of None \<Rightarrow> None | Some a \<Rightarrow> scan_digits a ys)"
  by (induction xs arbitrary: acc) auto

lemma scan_digits_nat_digits: "scan_digits 0 (nat_digits n) = Some n"
proof (induction n rule: nat_digits.induct)
  case (1 n)
  show ?case
  proof (cases "n < 10")
    case True
    then show ?thesis
      by (subst nat_digits.simps) (simp add: is_digit_digit_char digit_char_value)
  next
    case False
    then have "scan_digits 0 (nat_digits (n div 10)) = Some (n div 10)" by (rule 1)
    with False show ?thesis
      by (subst nat_digits.simps)
        (simp add: scan_digits_append is_digit_digit_char digit_char_value)
  qed
qed

lemma nat_digits_not_Nil: "nat_digits n \<noteq> []"
  by (subst nat_digits.simps) simp

lemma hd_nat_digits: "is_digit (hd (nat_digits n))"
proof (induction n rule: nat_digits.induct)
  case (1 n)
  show ?case
  proof (cases "n < 10")
    case True
    then show ?thesis by (subst nat_digits.simps) (simp add: is_digit_digit_char)
  next
    case False
    with 1 show ?thesis
      by (subst nat_digits.simps) (simp add: nat_digits_not_Nil)
  qed
qed

lemma not_digit_sign: "\<not> is_digit CHR ''-''" "\<not> is_digit CHR ''+''"
  by (simp_all add: is_digit_def byte_val_def)

lemma nat_digits_no_sign: "hd (nat_digits n) \<noteq> CHR ''-''" "hd (nat_digits n) \<noteq> CHR ''+''"
  using hd_nat_digits [of n] not_digit_sign by auto

lemma scan_mantissa_nat_digits: "scan_mantissa (nat_digits n) = Some n"
  by (simp add: scan_mantissa_def nat_digits_not_Nil scan_digits_nat_digits)

lemma SetString_FormatInt: "SetString (FormatInt x) = Some x"
proof (cases "x < 0")
  case True
  then show ?thesis
    by (simp add: SetString_def FormatInt_def scan_mantissa_nat_digits)
next
  case False
  obtain c cs where cs: "nat_digits (nat x) = c # cs"
    using nat_digits_not_Nil [of "nat x"] by (cases "nat_digits (nat x)") auto
  with nat_digits_no_sign [of "nat x"] have "c \<noteq> CHR ''-''" "c \<noteq> CHR ''+''" by auto
  moreover have "scan_mantissa (c # cs) = Some (nat x)"
    using scan_mantissa_nat_digits [of "nat x"] cs by simp
  ultimately show ?thesis using False cs
    by (simp add: SetString_def FormatInt_def)
qed

lemma SetString_Int_String [simp]: "SetString (Int_String x) = Some x"
  by (simp add: Int_String_def SetString_FormatInt)

lemma FormatInt_inj: "FormatInt x = FormatInt y \<Longrightarrow> x = y"
  by (metis SetString_FormatInt option.inject)

lemma SetString_examples:
  "SetString ''12.5'' = None" "SetString [] = None" "SetString ''-1'' = Some (- 1)"
  "SetString ''1000'' = Some 1000" "SetString ''-'' = None" "SetString ''1e3'' = None"
  by code_simp+

subsection \<open>The result of an operation that has sent its request\<close>

lemma FormatInt_200: "FormatInt 200 = ''200''"
  by (simp add: FormatInt_def nat_digits.simps digit_char_def)

lemma FormatInt_1: "FormatInt 1 = ''1''"
  by (simp add: FormatInt_def nat_digits.simps digit_char_def)

lemma Verify_result:
  assumes "snd (Verify w c pb rb) = [r]"
  shows "fst (Verify w c pb rb) =
     (case httpClient_Do c r of
        Inl err \<Rightarrow> Inl (WrapError ''verify request failed: '' err)
      | Inr resp \<Rightarrow> verify_response w resp)"
  using assms by (auto simp: Verify_def verifyHTTP_def split: sum.splits)

lemma Settle_result:
  assumes "snd (Settle w c pb rb) = [r]"
  shows "fst (Settle w c pb rb) =
     (case httpClient_Do c r of
        Inl err \<Rightarrow> Inl (WrapError ''settle request failed: '' err)
      | Inr resp \<Rightarrow> settle_response w resp)"
  using assms by (auto simp: Settle_def settleHTTP_def split: sum.splits)

lemma GetSupported_result:
  assumes "snd (GetSupported w c) = [r]"
  shows "fst (GetSupported w c) =
     (case httpClient_Do c r of
        Inl err \<Rightarrow> Inl (WrapError ''supported request failed: '' err)
      | Inr resp \<Rightarrow> supported_response w resp)"
  using assms by (auto simp: GetSupported_def split: sum.splits)

lemma sample_Verify_sent:
  "\<exists>r. snd (Verify (sample_env e) sample_client pb rb) = [r]"
  by (simp add: Verify_def verifyHTTP_def verify_request_def prepare_request_def
      NewRequestWithContext_def sample_env_def sample_client_def Let_def)

subsection \<open>The size of the digests\<close>

lemma length_be_bytes [simp]: "length (be_bytes n v) = n"
  by (induction n arbitrary: v) auto

lemma length_sha_output: "length (sha_output H) = 32"
  by (cases H rule: sha_output.cases) simp

lemma length_sha256 [simp]: "length (sha256 m) = 32"
  by (simp add: sha256_def length_sha_output)

lemma length_hmac_sha256 [simp]: "length (hmac_sha256 k m) = 32"
  by (simp add: hmac_sha256_def Let_def)

subsection \<open>The base64 encoding is injective\<close>

lemma radix64:
  fixes v v' :: nat
  assumes "v < 16777216" "v' < 16777216"
    "v div 262144 mod 64 = v' div 262144 mod 64" "v div 4096 mod 64 = v' div 4096 mod 64"
    "v div 64 mod 64 = v' div 64 mod 64" "v mod 64 = v' mod 64"
  shows "v = v'"
proof -
  have a: "v div 64 = v' div 64"
  proof -
    have b: "v div 4096 = v' div 4096"
    proof -
      have "v div 262144 < 64" "v' div 262144 < 64" using assms(1,2) by simp_all
      then have "v div 262144 = v' div 262144" using assms(3) by simp
      moreover have "v div 262144 = v div 4096 div 64" "v' div 262144 = v' div 4096 div 64"
        by (simp_all add: div_mult2_eq [symmetric])
      ultimately show ?thesis using assms(4) by (metis div_mult_mod_eq)
    qed
    moreover have "v div 4096 = v div 64 div 64" "v' div 4096 = v' div 64 div 64"
        by (simp_all add: div_mult2_eq [symmetric])
    ultimately show ?thesis using assms(5) by (metis div_mult_mod_eq)
  qed
  then show ?thesis using assms(6) by (metis div_mult_mod_eq)
qed

lemma bytes3:
  fixes a b c a' b' c' :: nat
  assumes "b < 256" "c < 256" "b' < 256" "c' < 256"
    "a * 65536 + b * 256 + c = a' * 65536 + b' * 256 + c'"
  shows "a = a' \<and> b = b' \<and> c = c'"
proof -
  have split: "x * 65536 + y * 256 + z = (x * 256 + y) * 256 + z" for x y z :: nat by simp
  have low: "(x * 256 + z) mod 256 = z" "(x * 256 + z) div 256 = x" if "z < 256" for x z :: nat
    using that by simp_all
  from assms(5) have e: "(a * 256 + b) * 256 + c = (a' * 256 + b') * 256 + c'"
    by (simp only: split)
  have "c = ((a * 256 + b) * 256 + c) mod 256" by (simp only: low(1) [OF assms(2)])
  also have "\<dots> = ((a' * 256 + b') * 256 + c') mod 256" by (simp only: e)
  also have "\<dots> = c'" by (simp only: low(1) [OF assms(4)])
  finally have c: "c = c'" .
  have "a * 256 + b = ((a * 256 + b) * 256 + c) div 256" by (simp only: low(2) [OF assms(2)])
  also have "\<dots> = ((a' * 256 + b') * 256 + c') div 256" by (simp only: e)
  also have "\<dots> = a' * 256 + b'" by (simp only: low(2) [OF assms(4)])
  finally have e2: "a * 256 + b = a' * 256 + b'" .
  have "b = (a * 256 + b) mod 256" by (simp only: low(1) [OF assms(1)])
  also have "\<dots> = (a' * 256 + b') mod 256" by (simp only: e2)
  also have "\<dots> = b'" by (simp only: low(1) [OF assms(3)])
  finally have b: "b = b'" .
  have "a = (a * 256 + b) div 256" by (simp only: low(2) [OF assms(1)])
  also have "\<dots> = (a' * 256 + b') div 256" by (simp only: e2)
  also have "\<dots> = a'" by (simp only: low(2) [OF assms(3)])
  finally have "a = a'" .
  with b c show ?thesis by simp
qed

lemma b64_alphabet:
  "length base64_alphabet = 64" "distinct base64_alphabet" "CHR ''='' \<notin> set base64_alphabet"
  by (simp_all add: base64_alphabet_def)

lemma b64_eq_iff: "b64 m = b64 n \<longleftrightarrow> m mod 64 = n mod 64"
  unfolding b64_def using b64_alphabet(1,2) by (simp add: nth_eq_iff_index_eq)

lemma b64_not_pad [simp]: "b64 n \<noteq> CHR ''=''" "CHR ''='' \<noteq> b64 n"
proof -
  have "n mod 64 < length base64_alphabet" by (simp add: b64_alphabet(1))
  then have "b64 n \<in> set base64_alphabet" unfolding b64_def by (rule nth_mem)
  with b64_alphabet(3) show "b64 n \<noteq> CHR ''=''" "CHR ''='' \<noteq> b64 n" by auto
qed

lemma byte_val_less [simp]: "byte_val c < 256"
  by (simp add: byte_val_def)

lemma byte_val_eq [simp]: "byte_val c = byte_val d \<longleftrightarrow> c = d"
  by (simp add: byte_val_def)

lemma group_bound:
  "byte_val a * 65536 + byte_val b * 256 + byte_val c < 16777216"
  using byte_val_less [of a] byte_val_less [of b] byte_val_less [of c] by linarith

lemma group_val:
  assumes "v = byte_val a * 65536 + byte_val b * 256 + byte_val c"
    "v' = byte_val a' * 65536 + byte_val b' * 256 + byte_val c'"
    "v div 262144 mod 64 = v' div 262144 mod 64" "v div 4096 mod 64 = v' div 4096 mod 64"
    "v div 64 mod 64 = v' div 64 mod 64" "v mod 64 = v' mod 64"
  shows "byte_val a = byte_val a' \<and> byte_val b = byte_val b' \<and> byte_val c = byte_val c'"
proof -
  have "v < 16777216" "v' < 16777216"
    unfolding assms(1,2) by (rule group_bound)+
  then have "v = v'" using assms(3-6) by (rule radix64)
  then have "byte_val a * 65536 + byte_val b * 256 + byte_val c
      = byte_val a' * 65536 + byte_val b' * 256 + byte_val c'"
    by (simp only: assms(1,2))
  then show ?thesis by (intro bytes3) (rule byte_val_less)+
qed

lemma zero_byte: "byte_val (CHR 0x00) = 0"
  by (simp add: byte_val_def)

lemma group1:
  assumes "b64 (byte_val a * 65536 div 262144) = b64 (byte_val a' * 65536 div 262144)"
    "b64 (byte_val a * 65536 div 4096) = b64 (byte_val a' * 65536 div 4096)"
  shows "a = a'"
proof -
  define v where "v = byte_val a * 65536 + byte_val (CHR 0x00) * 256 + byte_val (CHR 0x00)"
  define v' where "v' = byte_val a' * 65536 + byte_val (CHR 0x00) * 256 + byte_val (CHR 0x00)"
  have v: "v = byte_val a * 65536" "v' = byte_val a' * 65536"
    by (simp_all add: v_def v'_def zero_byte)
  have "v div 262144 mod 64 = v' div 262144 mod 64" "v div 4096 mod 64 = v' div 4096 mod 64"
    using assms by (simp_all only: v b64_eq_iff)
  moreover have "v div 64 mod 64 = v' div 64 mod 64" "v mod 64 = v' mod 64"
    by (simp_all add: v)
  ultimately have "byte_val a = byte_val a'"
    using group_val [OF v_def v'_def] by blast
  then show ?thesis by simp
qed

lemma group2:
  assumes "b64 ((byte_val a * 65536 + byte_val b * 256) div 262144)
         = b64 ((byte_val a' * 65536 + byte_val b' * 256) div 262144)"
      "b64 ((byte_val a * 65536 + byte_val b * 256) div 4096)
         = b64 ((byte_val a' * 65536 + byte_val b' * 256) div 4096)"
      "b64 ((byte_val a * 65536 + byte_val b * 256) div 64)
         = b64 ((byte_val a' * 65536 + byte_val b' * 256) div 64)"
  shows "a = a' \<and> b = b'"
proof -
  define v where "v = byte_val a * 65536 + byte_val b * 256 + byte_val (CHR 0x00)"
  define v' where "v' = byte_val a' * 65536 + byte_val b' * 256 + byte_val (CHR 0x00)"
  have v: "v = byte_val a * 65536 + byte_val b * 256" "v' = byte_val a' * 65536 + byte_val b' * 256"
    by (simp_all add: v_def v'_def zero_byte)
  have "v div 262144 mod 64 = v' div 262144 mod 64" "v div 4096 mod 64 = v' div 4096 mod 64"
    "v div 64 mod 64 = v' div 64 mod 64"
    using assms by (simp_all only: v b64_eq_iff)
  moreover have "v mod 64 = v' mod 64"
    by (simp add: v)
  ultimately have "byte_val a = byte_val a' \<and> byte_val b = byte_val b'"
    using group_val [OF v_def v'_def] by blast
  then show ?thesis by simp
qed

lemma group3:
  assumes "b64 ((byte_val a * 65536 + byte_val b * 256 + byte_val c) div 262144)
         = b64 ((byte_val a' * 65536 + byte_val b' * 256 + byte_val c') div 262144)"
      "b64 ((byte_val a * 65536 + byte_val b * 256 + byte_val c) div 4096)
         = b64 ((byte_val a' * 65536 + byte_val b' * 256 + byte_val c') div 4096)"
      "b64 ((byte_val a * 65536 + byte_val b * 256 + byte_val c) div 64)
         = b64 ((byte_val a' * 65536 + byte_val b' * 256 + byte_val c') div 64)"
      "b64 (byte_val a * 65536 + byte_val b * 256 + byte_val c)
         = b64 (byte_val a' * 65536 + byte_val b' * 256 + byte_val c')"
  shows "a = a' \<and> b = b' \<and> c = c'"
proof -
  have "byte_val a = byte_val a' \<and> byte_val b = byte_val b' \<and> byte_val c = byte_val c'"
    using assms unfolding b64_eq_iff by (intro group_val [OF refl refl])
  then show ?thesis by simp
qed

lemma base64_encode_inj: "base64_encode xs = base64_encode ys \<Longrightarrow> xs = ys"
proof (induction xs arbitrary: ys rule: base64_encode.induct)
  case 1
  then show ?case by (cases ys rule: base64_encode.cases) (simp_all add: Let_def)
next
  case (2 a)
  then show ?case
    by (cases ys rule: base64_encode.cases) (auto simp only: base64_encode.simps Let_def
        list.inject list.distinct b64_not_pad append_Cons intro: group1)
next
  case (3 a b)
  then show ?case
    by (cases ys rule: base64_encode.cases) (auto simp only: base64_encode.simps Let_def
        list.inject list.distinct b64_not_pad append_Cons dest: group2)
next
  case (4 a b c rest)
  show ?case
  proof (cases ys rule: base64_encode.cases)
    case 1
    with "4.prems" show ?thesis by (simp add: Let_def)
  next
    case (2 a')
    with "4.prems" show ?thesis by (simp add: Let_def)
  next
    case (3 a' b')
    with "4.prems" show ?thesis by (simp add: Let_def)
  next
    case (4 a' b' c' r)
    from "4.prems" have "a = a' \<and> b = b' \<and> c = c'" and rest: "base64_encode rest = base64_encode r"
      unfolding 4 base64_encode.simps Let_def append_Cons append_Nil list.inject
      by (blast dest: group3)+
    moreover from rest have "rest = r" by (rule "4.IH" [OF refl])
    ultimately show ?thesis using 4 by simp
  qed
qed

section \<open>The claims about the facilitator client\<close>

text \<open>
  Claim C10. If the API-key or the API-secret environment variable is unset or consists
  of white space only, \<open>applyGateWeb3Signature\<close> returns the request as it was: no
  header is set and no error is raised. Every request that \<open>Verify\<close>, \<open>Settle\<close> and
  \<open>GetSupported\<close> then send is the POST with the content type and the headers of
  the custom provider, if there is one, and nothing else.
\<close>

theorem no_credentials_request_unsigned:
  assumes "unset_or_whitespace_only (os_environ w) envGateWeb3APIKey
         \<or> unset_or_whitespace_only (os_environ w) envGateWeb3APISecret"
  shows "applyGateWeb3Signature w req body targetURI = req
    \<and> (\<forall>r \<in> set (snd (Verify w c pb rb)).
          r = set_headers (base_request c (req_Body r)) (provider_headers c ah_Verify))
    \<and> (\<forall>r \<in> set (snd (Settle w c pb rb)).
          r = set_headers (base_request c (req_Body r)) (provider_headers c ah_Settle))
    \<and> (\<forall>r \<in> set (snd (GetSupported w c)).
          r = set_headers (base_request c (req_Body r)) (provider_headers c ah_Supported))"
proof -
  have none: "loadGateWeb3Credentials (os_environ w) = None"
    using assms by (rule loadGateWeb3Credentials_None)
  have unsigned: "applyGateWeb3Signature w q b t = q" for q b t
    using none by (rule applyGateWeb3Signature_None)
  have "r = set_headers (base_request c (req_Body r)) (provider_headers c ah_Verify)"
    if "r \<in> set (snd (Verify w c pb rb))" for r
    using Verify_sent [OF that] verify_request_Inr prepare_request_Inr unsigned by metis
  moreover have "r = set_headers (base_request c (req_Body r)) (provider_headers c ah_Settle)"
    if "r \<in> set (snd (Settle w c pb rb))" for r
    using Settle_sent [OF that] settle_request_Inr prepare_request_Inr unsigned by metis
  moreover have "r = set_headers (base_request c (req_Body r)) (provider_headers c ah_Supported)"
    if "r \<in> set (snd (GetSupported w c))" for r
    using GetSupported_sent [OF that] supported_request_Inr prepare_request_Inr unsigned by metis
  ultimately show ?thesis using unsigned by blast
qed

theorem no_credentials_request_unsigned_witness:
  "(unset_or_whitespace_only (os_environ (sample_env env_without_secret)) envGateWeb3APIKey
      \<or> unset_or_whitespace_only (os_environ (sample_env env_without_secret)) envGateWeb3APISecret)
   \<and> applyGateWeb3Signature (sample_env env_without_secret) (base_request sample_client ''{}'')
        ''{}'' gateWeb3TargetURIVerify = base_request sample_client ''{}''
   \<and> (\<exists>r. snd (GetSupported (sample_env env_without_secret) sample_client) = [r] \<and>
          req_Header r = [''Content-Type'' \<mapsto> [''application/json'']])"
proof -
  let ?w = "sample_env env_without_secret"
  have hyp: "unset_or_whitespace_only (os_environ ?w) envGateWeb3APIKey
      \<or> unset_or_whitespace_only (os_environ ?w) envGateWeb3APISecret"
    using sample_blank by simp
  note inst = no_credentials_request_unsigned [OF hyp, of "base_request sample_client ''{}''" "''{}''"
      gateWeb3TargetURIVerify sample_client "''{}''" "''{}''"]
  obtain r rs where r: "snd (GetSupported ?w sample_client) = r # rs"
    using sample_GetSupported_sent [of env_without_secret] by (cases "snd (GetSupported ?w sample_client)") auto
  then have mem: "r \<in> set (snd (GetSupported ?w sample_client))" by simp
  then have one: "snd (GetSupported ?w sample_client) = [r]"
    by (simp add: GetSupported_sent)
  from inst mem have "r = set_headers (base_request sample_client (req_Body r))
      (provider_headers sample_client ah_Supported)" by blast
  then have "req_Header r = req_Header (set_headers (base_request sample_client (req_Body r))
      (provider_headers sample_client ah_Supported))" by (rule arg_cong)
  then have "req_Header r = [''Content-Type'' \<mapsto> [''application/json'']]"
    by (simp add: provider_headers_def sample_client_def base_request_def set_header_def
        Header_Set_def canon_keys)
  with one have "snd (GetSupported ?w sample_client) = [r] \<and>
      req_Header r = [''Content-Type'' \<mapsto> [''application/json'']]" by simp
  then show ?thesis using hyp inst by blast
qed

text \<open>
  Claim C4. With credentials in the environment, \<open>applyGateWeb3Signature\<close> sets
  \<open>X-Signature\<close> to the base64 encoding of the HMAC-SHA256, under the secret, of the
  timestamp followed by the signing path and the body; it sets the timestamp, the API
  key and the request identifier, the passphrase when it is not empty, and the
  forwarded address; and it leaves the body alone. In each of the three operations the
  body that is signed is the body of the request that is sent: the request is the signed
  base request over its own body, with the provider's headers set on top.
\<close>

theorem signature_headers_attached:
  assumes "loadGateWeb3Credentials (os_environ w) = Some creds"
  shows "req_Header (applyGateWeb3Signature w req body targetURI) ''X-Signature'' =
           Some [base64_encode (hmac_sha256 (APISecret creds)
                   (FormatInt (now_UnixMilli w) @ gateWeb3SigningPath @ body))]
    \<and> req_Header (applyGateWeb3Signature w req body targetURI) ''X-Timestamp'' =
           Some [FormatInt (now_UnixMilli w)]
    \<and> req_Header (applyGateWeb3Signature w req body targetURI) ''X-Api-Key'' =
           Some [APIKey creds]
    \<and> req_Header (applyGateWeb3Signature w req body targetURI) ''X-Request-Id'' =
           Some [uuid_NewString w]
    \<and> req_Header (applyGateWeb3Signature w req body targetURI) ''X-Passphrase'' =
           (if Passphrase creds \<noteq> [] then Some [Passphrase creds]
            else req_Header req ''X-Passphrase'')
    \<and> req_Header (applyGateWeb3Signature w req body targetURI) ''X-Forwarded-For'' =
           Some [RealIP creds]
    \<and> req_Body (applyGateWeb3Signature w req body targetURI) = req_Body req
    \<and> (\<forall>r \<in> set (snd (Verify w c pb rb)).
          r = set_headers (applyGateWeb3Signature w (base_request c (req_Body r)) (req_Body r)
                gateWeb3TargetURIVerify) (provider_headers c ah_Verify))
    \<and> (\<forall>r \<in> set (snd (Settle w c pb rb)).
          r = set_headers (applyGateWeb3Signature w (base_request c (req_Body r)) (req_Body r)
                gateWeb3TargetURISettle) (provider_headers c ah_Settle))
    \<and> (\<forall>r \<in> set (snd (GetSupported w c)).
          r = set_headers (applyGateWeb3Signature w (base_request c (req_Body r)) (req_Body r)
                gateWeb3TargetURISupported) (provider_headers c ah_Supported))"
proof -
  have "r = set_headers (applyGateWeb3Signature w (base_request c (req_Body r)) (req_Body r)
                gateWeb3TargetURIVerify) (provider_headers c ah_Verify)"
    if "r \<in> set (snd (Verify w c pb rb))" for r
    using Verify_sent [OF that] verify_request_Inr prepare_request_Inr by metis
  moreover have "r = set_headers (applyGateWeb3Signature w (base_request c (req_Body r)) (req_Body r)
                gateWeb3TargetURISettle) (provider_headers c ah_Settle)"
    if "r \<in> set (snd (Settle w c pb rb))" for r
    using Settle_sent [OF that] settle_request_Inr prepare_request_Inr by metis
  moreover have "r = set_headers (applyGateWeb3Signature w (base_request c (req_Body r)) (req_Body r)
                gateWeb3TargetURISupported) (provider_headers c ah_Supported)"
    if "r \<in> set (snd (GetSupported w c))" for r
    using GetSupported_sent [OF that] supported_request_Inr prepare_request_Inr by metis
  ultimately show ?thesis
    using loadGateWeb3Credentials_Some(7) [OF assms]
    by (simp add: applyGateWeb3Signature_def assms Let_def set_header_def Header_Set_def
        canon_keys gateWeb3_signature_def gateWeb3_prehash_def)
qed

theorem signature_headers_attached_witness:
  "loadGateWeb3Credentials (os_environ (sample_env env_with_credentials)) =
      Some \<lparr>APIKey = ''ak'', APISecret = ''sk'', Passphrase = [], RealIP = ''127.0.0.1''\<rparr>
   \<and> req_Header (applyGateWeb3Signature (sample_env env_with_credentials)
         (base_request sample_client ''{}'') ''{}'' gateWeb3TargetURIVerify) ''X-Signature'' =
       Some [base64_encode (hmac_sha256 ''sk'' (''1700000000000/api/v1/dex{}''))]
   \<and> req_Header (applyGateWeb3Signature (sample_env env_with_credentials)
         (base_request sample_client ''{}'') ''{}'' gateWeb3TargetURIVerify) ''X-Api-Key'' =
       Some [''ak'']"
proof -
  let ?w = "sample_env env_with_credentials"
  have hyp: "loadGateWeb3Credentials (os_environ ?w) =
      Some \<lparr>APIKey = ''ak'', APISecret = ''sk'', Passphrase = [], RealIP = ''127.0.0.1''\<rparr>"
    by (simp add: loadGateWeb3Credentials_def sample_defs Getenv_def TrimSpace_def space_runes_def
        defaultGateWeb3Passphrase_def defaultGateWeb3ForwardedFor_def Let_def)
  have ts: "FormatInt (now_UnixMilli ?w) = ''1700000000000''"
    by (simp add: sample_env_def FormatInt_def nat_digits.simps digit_char_def)
  show ?thesis
    using hyp signature_headers_attached [OF hyp, of "base_request sample_client ''{}''" "''{}''"
      gateWeb3TargetURIVerify sample_client "''{}''" "''{}''"] ts
    by (simp add: gateWeb3SigningPath_def)
qed




text \<open>
  Claim C5, as amended. When the facilitator answers with status 200 and an envelope
  whose code is not 0, \<open>Verify\<close>, \<open>Settle\<close> and \<open>GetSupported\<close> return an error, never
  a result. For verify the error is the typed \<open>VerifyError\<close> with the reason and the
  payer when \<open>invalid_reason\<close> is not empty; for settle it is the typed \<open>SettleError\<close>
  with the reason, the payer, the network and the transaction when \<open>error_reason\<close> is
  not empty. When the reason is empty, and always for \<open>GetSupported\<close>, the error is an
  untyped formatted error that holds the status, the code and the message.
\<close>

theorem business_failure_is_an_error:
  assumes "StatusCode resp = 200" and "ReadAll_Body resp = Inr body"
  shows "(\<forall>r a. snd (Verify w c pb rb) = [r] \<and> httpClient_Do c r = Inr resp \<and>
             Unmarshal_verify w body = Inr a \<and> Code a \<noteq> 0 \<longrightarrow>
           fst (Verify w c pb rb) =
             Inl (if vr_InvalidReason (Data a) \<noteq> []
                  then VerifyError (vr_InvalidReason (Data a)) (vr_Payer (Data a)) []
                         (ErrorString (''facilitator returned http=200 code='' @ FormatInt (Code a)
                            @ '' msg='' @ Msg a))
                  else ErrorString (''facilitator verify failed (http=200, code=''
                         @ FormatInt (Code a) @ '', msg='' @ Msg a @ '')'')))
    \<and> (\<forall>r a. snd (Settle w c pb rb) = [r] \<and> httpClient_Do c r = Inr resp \<and>
             Unmarshal_settle w body = Inr a \<and> Code a \<noteq> 0 \<longrightarrow>
           fst (Settle w c pb rb) =
             Inl (if sr_ErrorReason (Data a) \<noteq> []
                  then SettleError (sr_ErrorReason (Data a)) (sr_Payer (Data a))
                         (sr_Network (Data a)) (sr_Transaction (Data a))
                         (ErrorString (''facilitator returned http=200 code='' @ FormatInt (Code a)
                            @ '' msg='' @ Msg a))
                  else ErrorString (''facilitator settle failed (http=200, code=''
                         @ FormatInt (Code a) @ '', msg='' @ Msg a @ '')'')))
    \<and> (\<forall>r a. snd (GetSupported w c) = [r] \<and> httpClient_Do c r = Inr resp \<and>
             Unmarshal_supported w body = Inr a \<and> Code a \<noteq> 0 \<longrightarrow>
           fst (GetSupported w c) =
             Inl (ErrorString (''facilitator supported failed (http=200, code=''
                    @ FormatInt (Code a) @ '', msg='' @ Msg a @ '')'')))"
  using assms
  by (auto simp: Verify_result Settle_result GetSupported_result verify_response_def
      settle_response_def supported_response_def http_code_msg_def http_code_msg_plain_def
      FormatInt_200 StatusOK_def)

theorem business_failure_is_an_error_witness:
  "fst (Settle (sample_env env_with_credentials) sample_client ''p'' ''q'') =
     Inl (ErrorString ''facilitator settle failed (http=200, code=1, msg=denied)'')"
proof -
  let ?w = "sample_env env_with_credentials"
  let ?resp = "\<lparr>StatusCode = 200, ReadAll_Body = Inr ''{}''\<rparr>"
  let ?a = "\<lparr>Code = 1, Msg = ''denied'',
         Data = \<lparr>sr_Success = False, sr_ErrorReason = [], sr_Payer = [],
                  sr_Transaction = [], sr_Network = []\<rparr>\<rparr>"
  have sent: "\<exists>r. snd (Settle ?w sample_client ''p'' ''q'') = [r]"
    by (simp add: Settle_def settleHTTP_def settle_request_def prepare_request_def
      NewRequestWithContext_def sample_env_def sample_client_def Let_def)
  then obtain r where r: "snd (Settle ?w sample_client ''p'' ''q'') = [r]" by blast
  have h: "StatusCode ?resp = 200" "ReadAll_Body ?resp = Inr ''{}''" by simp_all
  have pre: "snd (Settle ?w sample_client ''p'' ''q'') = [r] \<and>
      httpClient_Do sample_client r = Inr ?resp \<and> Unmarshal_settle ?w ''{}'' = Inr ?a \<and> Code ?a \<noteq> 0"
    using r by (simp add: sample_client_def sample_env_def)
  from business_failure_is_an_error [OF h, of ?w sample_client "''p''" "''q''"] pre
  have "fst (Settle ?w sample_client ''p'' ''q'') =
             Inl (if sr_ErrorReason (Data ?a) \<noteq> []
                  then SettleError (sr_ErrorReason (Data ?a)) (sr_Payer (Data ?a))
                         (sr_Network (Data ?a)) (sr_Transaction (Data ?a))
                         (ErrorString (''facilitator returned http=200 code='' @ FormatInt (Code ?a)
                            @ '' msg='' @ Msg ?a))
                  else ErrorString (''facilitator settle failed (http=200, code=''
                         @ FormatInt (Code ?a) @ '', msg='' @ Msg ?a @ '')''))"
    by blast
  then show ?thesis by (simp add: FormatInt_1)
qed

text \<open>
  Claim C5 as it was stated fails: a verify answer with status 200, code 1 and an empty
  \<open>invalid_reason\<close> yields the untyped formatted error, not a \<open>VerifyError\<close>.
\<close>

theorem verify_failure_without_reason_is_untyped:
  "fst (Verify (sample_env env_with_credentials) sample_client ''p'' ''q'') =
     Inl (ErrorString ''facilitator verify failed (http=200, code=1, msg=denied)'')"
proof -
  obtain r where r: "snd (Verify (sample_env env_with_credentials) sample_client ''p'' ''q'') = [r]"
    using sample_Verify_sent by blast
  show ?thesis
    unfolding Verify_result [OF r]
    by (simp add: sample_client_def verify_response_def sample_env_def
        http_code_msg_def FormatInt_200 FormatInt_1 StatusOK_def)
qed

section \<open>Facts about the payment scheme\<close>

subsection \<open>Padding, addresses and digests\<close>

lemma byte_of_0 [simp]: "byte_of 0 = CHR 0x00"
  by (simp add: byte_of_def char_of_def)

lemma LeftPadBytes_32: "LeftPadBytes b 32 = leftPad32 b"
  by (simp add: LeftPadBytes_def leftPad32_def)

lemma length_BytesToAddress [simp]: "length (BytesToAddress b) = 20"
  by (simp add: BytesToAddress_def AddressLength_def Let_def)

lemma length_HexToAddress [simp]: "length (HexToAddress s) = 20"
  by (simp add: HexToAddress_def)

lemma signWithDomainSeparator_digest_eq:
  "signWithDomainSeparator_digest pkg a ds =
     (case SetString (Value a) of
        None \<Rightarrow> None
      | Some v \<Rightarrow>
          (case SetString (ValidAfter a) of
             None \<Rightarrow> None
           | Some va \<Rightarrow>
               (case SetString (ValidBefore a) of
                  None \<Rightarrow> None
                | Some vb \<Rightarrow> Some (authorization_digest pkg a v va vb ds))))"
  by (simp add: signWithDomainSeparator_digest_def authorization_digest_def signing_digest_def
      structHash_def typeHash_def LeftPadBytes_32 Let_def split: option.splits)

lemma byte_of_mod: "byte_of (n mod 256) = byte_of n"
  by (simp add: byte_of_def)

lemma be_bytes_0: "be_bytes k 0 = replicate k (CHR 0x00)"
  by (induction k) (simp_all add: replicate_append_same)

lemma nat_bytes_0 [simp]: "nat_bytes 0 = []"
  by (simp add: nat_bytes.simps)

lemma nat_bytes_pos: "0 < n \<Longrightarrow> nat_bytes n = nat_bytes (n div 256) @ [byte_of n]"
  by (subst nat_bytes.simps) (simp add: byte_of_mod)

lemma length_nat_bytes: "n < 256 ^ k \<Longrightarrow> length (nat_bytes n) \<le> k"
proof (induction k arbitrary: n)
  case 0
  then show ?case by simp
next
  case (Suc k)
  show ?case
  proof (cases "n = 0")
    case True
    then show ?thesis by simp
  next
    case False
    from Suc.prems have "n div 256 < 256 ^ k" by (simp add: less_mult_imp_div_less mult.commute)
    then have "length (nat_bytes (n div 256)) \<le> k" by (rule Suc.IH)
    with False show ?thesis by (simp add: nat_bytes_pos)
  qed
qed

lemma pad_nat_bytes:
  "n < 256 ^ k \<Longrightarrow> replicate (k - length (nat_bytes n)) (CHR 0x00) @ nat_bytes n = be_bytes k n"
proof (induction k arbitrary: n)
  case 0
  then show ?case by simp
next
  case (Suc k)
  show ?case
  proof (cases "n = 0")
    case True
    then show ?thesis using be_bytes_0 [of "Suc k"] by simp
  next
    case False
    from Suc.prems have less: "n div 256 < 256 ^ k"
      by (simp add: less_mult_imp_div_less mult.commute)
    then have len: "length (nat_bytes (n div 256)) \<le> k" by (rule length_nat_bytes)
    from less have "replicate (k - length (nat_bytes (n div 256))) (CHR 0x00)
        @ nat_bytes (n div 256) = be_bytes k (n div 256)" by (rule Suc.IH)
    with False len show ?thesis by (simp add: nat_bytes_pos Suc_diff_le)
  qed
qed

lemma leftPad32_Int_Bytes:
  assumes "0 \<le> v" and "v < 2 ^ 256"
  shows "leftPad32 (Int_Bytes v) = be_bytes 32 (nat v)"
proof -
  have "nat v < 256 ^ 32"
  proof -
    have "(256::nat) ^ 32 = 2 ^ 256" by simp
    moreover have "nat v < 2 ^ 256" using assms by (simp add: nat_less_iff)
    ultimately show ?thesis by simp
  qed
  then show ?thesis using assms(1) pad_nat_bytes [of "nat v" 32]
    by (simp add: leftPad32_def Int_Bytes_def)
qed

lemma length_leftPad32: "length b \<le> 32 \<Longrightarrow> length (leftPad32 b) = 32"
  by (simp add: leftPad32_def)

lemma new_authorization_numbers:
  "SetString (Value (new_authorization pkg c r v nonce)) = Some v"
  "SetString (ValidAfter (new_authorization pkg c r v nonce)) =
     Some (fst (CreateValidityWindow pkg time_Hour))"
  "SetString (ValidBefore (new_authorization pkg c r v nonce)) =
     Some (snd (CreateValidityWindow pkg time_Hour))"
  by (simp_all add: new_authorization_def split: prod.splits)

lemma new_authorization_fields:
  "From (new_authorization pkg c r v nonce) = Address (signer c)"
  "To (new_authorization pkg c r v nonce) = PayTo r"
  "Value (new_authorization pkg c r v nonce) = Int_String v"
  "Nonce (new_authorization pkg c r v nonce) = nonce"
  by (simp_all add: new_authorization_def split: prod.splits)

lemma digest_of_new_authorization:
  "signWithDomainSeparator_digest pkg (new_authorization pkg c r v nonce) ds =
     Some (authorization_digest pkg (new_authorization pkg c r v nonce) v
       (fst (CreateValidityWindow pkg time_Hour)) (snd (CreateValidityWindow pkg time_Hour)) ds)"
  by (simp add: signWithDomainSeparator_digest_eq new_authorization_numbers)

lemma pinned_domain_separator_bytes:
  "pinned_domain_separator =
     [CHR 0x2c, CHR 0x2d, CHR 0x6b, CHR 0x62, CHR 0x1e, CHR 0x73, CHR 0xa4, CHR 0xa0,
      CHR 0x94, CHR 0x44, CHR 0x9d, CHR 0x18, CHR 0x94, CHR 0x71, CHR 0x74, CHR 0x13,
      CHR 0x74, CHR 0x21, CHR 0x30, CHR 0xfb, CHR 0x20, CHR 0x14, CHR 0x9e, CHR 0xc4,
      CHR 0x83, CHR 0x40, CHR 0xca, CHR 0x03, CHR 0x54, CHR 0xd1, CHR 0xa7, CHR 0x07]"
  by code_simp

lemma length_pinned_domain_separator: "length pinned_domain_separator = 32"
  by (simp add: pinned_domain_separator_bytes)

lemma signWithDomainSeparator_new:
  "signWithDomainSeparator pkg c (new_authorization pkg c r v nonce) ds =
     Return (SignDigest (signer c)
               (authorization_digest pkg (new_authorization pkg c r v nonce) v
                  (fst (CreateValidityWindow pkg time_Hour))
                  (snd (CreateValidityWindow pkg time_Hour)) ds))
       [SignDigestCall
          (authorization_digest pkg (new_authorization pkg c r v nonce) v
             (fst (CreateValidityWindow pkg time_Hour))
             (snd (CreateValidityWindow pkg time_Hour)) ds)]"
  by (simp add: signWithDomainSeparator_def digest_of_new_authorization signDigest_def)

lemma CreatePaymentPayload_signing:
  assumes "GetEvmChainId pkg (Network r) = Inr cid"
    and "GetAssetInfo pkg (Network r) (Asset r) = Inr ai"
    and "SetString (Amount r) = Some v"
    and "CreateNonce pkg = Inr nonce"
  shows "CreatePaymentPayload pkg c r =
     (if Network r = pinned_network \<and> ai_Address ai = pinned_asset
      then (case SignDigest (signer c) (pinned_digest pkg c r v nonce) of
              Inr sig \<Rightarrow>
                Return (Inr (payload_of sig pkg (new_authorization pkg c r v nonce)))
                  [SignDigestCall (pinned_digest pkg c r v nonce)]
            | Inl err \<Rightarrow>
                standard_run pkg c r cid ai v nonce
                  [SignDigestCall (pinned_digest pkg c r v nonce)])
      else standard_run pkg c r cid ai v nonce [])"
  using assms length_pinned_domain_separator
  by (simp add: CreatePaymentPayload_def Let_def signWithDomainSeparator_new pinned_digest_def
      standard_run_def pinned_domain_separator_def split: sum.splits)

text \<open>The standard part: it never panics on the authorization built, it ends with a
  request to the signer, and the answer to that request decides the result.\<close>

lemma signAuthorization_new:
  "\<exists>res evs. signAuthorization pkg c (new_authorization pkg c r v nonce) cid addr name ver
        = Return res evs
     \<and> evs \<noteq> [] \<and> signer_answer (signer c) (last evs) = Some res
     \<and> (case ethClient c of
           None \<Rightarrow> (\<exists>dom msg. evs = [SignTypedDataCall dom msg])
         | Some call \<Rightarrow> (\<exists>a d rest. evs = CallContractCall a d # rest))"
proof (cases "ethClient c")
  case None
  then show ?thesis
    by (simp add: signAuthorization_def Let_def signer_answer_def)
next
  case (Some call)
  show ?thesis
  proof (cases "fst (queryDomainSeparator pkg call addr)")
    case (Inl err)
    then show ?thesis using Some
      by (cases "queryDomainSeparator pkg call addr")
        (auto simp: signAuthorization_def Let_def signer_answer_def queryDomainSeparator_def
          split: sum.splits if_splits)
  next
    case (Inr ds)
    then show ?thesis using Some
      by (cases "queryDomainSeparator pkg call addr")
        (auto simp: signAuthorization_def Let_def signer_answer_def queryDomainSeparator_def
          signWithDomainSeparator_new split: sum.splits if_splits)
  qed
qed

lemma standard_run_result:
  "\<exists>res evs. standard_run pkg c r cid ai v nonce before = Return res (before @ evs)
     \<and> evs \<noteq> []
     \<and> (case signer_answer (signer c) (last evs) of
           None \<Rightarrow> False
         | Some (Inl e) \<Rightarrow> res = Inl (WrapError (ErrFailedToSignAuthorization pkg @ '': '') e)
         | Some (Inr sig) \<Rightarrow> res = Inr (payload_of sig pkg (new_authorization pkg c r v nonce)))
     \<and> (case ethClient c of
           None \<Rightarrow> (\<exists>dom msg. evs = [SignTypedDataCall dom msg])
         | Some call \<Rightarrow> (\<exists>a d rest. evs = CallContractCall a d # rest))"
proof -
  obtain res evs where sa: "signAuthorization pkg c (new_authorization pkg c r v nonce) cid
        (ai_Address ai) (extra_or r ''name'' (ai_Name ai)) (extra_or r ''version'' (ai_Version ai))
        = Return res evs"
     "evs \<noteq> []" "signer_answer (signer c) (last evs) = Some res"
     "(case ethClient c of
           None \<Rightarrow> (\<exists>dom msg. evs = [SignTypedDataCall dom msg])
         | Some call \<Rightarrow> (\<exists>a d rest. evs = CallContractCall a d # rest))"
    using signAuthorization_new by blast
  show ?thesis
  proof (cases res)
    case (Inl e)
    with sa show ?thesis
      by (intro exI [of _ "Inl (WrapError (ErrFailedToSignAuthorization pkg @ '': '') e)"]
          exI [of _ evs]) (simp add: standard_run_def standard_signing_def)
  next
    case (Inr sig)
    with sa show ?thesis
      by (intro exI [of _ "Inr (payload_of sig pkg (new_authorization pkg c r v nonce))"]
          exI [of _ evs]) (simp add: standard_run_def standard_signing_def)
  qed
qed

subsection \<open>The sample package\<close>

lemma sample_strings:
  "Int_String 1000 = ''1000''" "Int_String (- 1) = ''-1''"
  "Int_String 1700000000 = ''1700000000''" "Int_String 1700003600 = ''1700003600''"
  by (simp_all add: Int_String_def FormatInt_def nat_digits.simps digit_char_def)

lemma sample_numbers:
  "SetString ''1000'' = Some 1000" "SetString ''-1'' = Some (- 1)"
  "SetString ''1700000000'' = Some 1700000000" "SetString ''1700003600'' = Some 1700003600"
  using SetString_Int_String [of 1000] SetString_Int_String [of "- 1"]
    SetString_Int_String [of 1700000000] SetString_Int_String [of 1700003600]
  by (simp_all only: sample_strings)

lemma sample_networks:
  "GetEvmChainId sample_pkg ''gatelayer_testnet'' = Inr 10087"
  "GetEvmChainId sample_pkg ''eip155:10087'' = Inr 10087"
  "GetAssetInfo sample_pkg ''gatelayer_testnet'' [] =
     Inr \<lparr>ai_Address = ''0x9be8Df37C788B244cFc28E46654aD5Ec28a880AF'', ai_Name = ''USDC'',
          ai_Version = ''2'', ai_Decimals = 6\<rparr>"
  "GetAssetInfo sample_pkg ''eip155:10087'' [] =
     Inr \<lparr>ai_Address = ''0x9be8Df37C788B244cFc28E46654aD5Ec28a880AF'', ai_Name = ''USDC'',
          ai_Version = ''2'', ai_Decimals = 6\<rparr>"
  "CreateNonce sample_pkg =
     Inr ''0x0101010101010101010101010101010101010101010101010101010101010101''"
  "CreateValidityWindow sample_pkg time_Hour = (1700000000, 1700003600)"
  by (simp_all add: sample_pkg_def NetworkConfigs_def ChainIDGateLayerTestnet_def
      DefaultDecimals_def time_Hour_def)

lemma sample_new_authorization:
  "new_authorization sample_pkg (offline_scheme s) (sample_requirements n amount) 1000
      ''0x0101010101010101010101010101010101010101010101010101010101010101''
     = sample_authorization ''1000''\<lparr>From := Address s\<rparr>"
  "new_authorization sample_pkg (online_scheme s) (sample_requirements n amount) 1000
      ''0x0101010101010101010101010101010101010101010101010101010101010101''
     = sample_authorization ''1000''\<lparr>From := Address s\<rparr>"
  "new_authorization sample_pkg (offline_scheme s) (sample_requirements n amount) (- 1)
      ''0x0101010101010101010101010101010101010101010101010101010101010101''
     = sample_authorization ''-1''\<lparr>From := Address s\<rparr>"
  by (simp_all add: new_authorization_def sample_networks sample_strings sample_requirements_def
      sample_authorization_def offline_scheme_def online_scheme_def)

lemma sample_signers:
  "Address full_signer = sample_address" "Address typed_only_signer = sample_address"
  "Address refusing_signer = sample_address"
  by (simp_all add: full_signer_def typed_only_signer_def refusing_signer_def)

lemma sample_authorization_From [simp]:
  "sample_authorization amount\<lparr>From := sample_address\<rparr> = sample_authorization amount"
  by (simp add: sample_authorization_def)

subsection \<open>Amounts\<close>

lemma invalid_amount_rejected:
  assumes "GetEvmChainId pkg (Network r) = Inr cid"
    and "GetAssetInfo pkg (Network r) (Asset r) = Inr ai"
    and "SetString (Amount r) = None"
  shows "CreatePaymentPayload pkg c r =
     Return (Inl (ErrorString (ErrInvalidAmount pkg @ '': '' @ Amount r))) []"
  using assms by (simp add: CreatePaymentPayload_def)

lemma unparsed_amount_never_signed:
  assumes "SetString (Amount r) = None"
  shows "\<exists>e. CreatePaymentPayload pkg c r = Return (Inl e) []"
  using assms by (auto simp: CreatePaymentPayload_def Let_def split: sum.splits)

lemma fraction_and_empty_rejected: "SetString ''12.5'' = None" "SetString [] = None"
  by code_simp+

lemma sign_dropped: "Int_Bytes (- 1) = Int_Bytes 1"
  by (simp add: Int_Bytes_def)

lemma chain_queries_single: "chain_queries (Return res [SignDigestCall d]) = 0"
  by (simp add: chain_queries_def events_of_def is_chain_query_def)

lemma pinned_constants: "pinned_network = ''gatelayer_testnet''"
  "pinned_asset = ''0x9be8Df37C788B244cFc28E46654aD5Ec28a880AF''"
  by (simp_all add: pinned_network_def pinned_asset_def)

subsection \<open>The sample runs\<close>

lemma sample_preflight:
  "GetEvmChainId sample_pkg (Network (sample_requirements ''gatelayer_testnet'' ''1000'')) = Inr 10087"
  "GetAssetInfo sample_pkg (Network (sample_requirements ''gatelayer_testnet'' ''1000''))
       (Asset (sample_requirements ''gatelayer_testnet'' ''1000'')) =
     Inr \<lparr>ai_Address = ''0x9be8Df37C788B244cFc28E46654aD5Ec28a880AF'', ai_Name = ''USDC'',
          ai_Version = ''2'', ai_Decimals = 6\<rparr>"
  "GetEvmChainId sample_pkg (Network (sample_requirements ''eip155:10087'' ''1000'')) = Inr 10087"
  "GetAssetInfo sample_pkg (Network (sample_requirements ''eip155:10087'' ''1000''))
       (Asset (sample_requirements ''eip155:10087'' ''1000'')) =
     Inr \<lparr>ai_Address = ''0x9be8Df37C788B244cFc28E46654aD5Ec28a880AF'', ai_Name = ''USDC'',
          ai_Version = ''2'', ai_Decimals = 6\<rparr>"
  "SetString (Amount (sample_requirements n ''1000'')) = Some 1000"
  by (simp_all add: sample_requirements_def sample_networks sample_numbers)

lemma sample_pinned_digest:
  "pinned_digest sample_pkg (offline_scheme s) (sample_requirements n amount) 1000
      ''0x0101010101010101010101010101010101010101010101010101010101010101''
     = authorization_digest sample_pkg (sample_authorization ''1000''\<lparr>From := Address s\<rparr>) 1000
         1700000000 1700003600 pinned_domain_separator"
  "pinned_digest sample_pkg (online_scheme s) (sample_requirements n amount) 1000
      ''0x0101010101010101010101010101010101010101010101010101010101010101''
     = authorization_digest sample_pkg (sample_authorization ''1000''\<lparr>From := Address s\<rparr>) 1000
         1700000000 1700003600 pinned_domain_separator"
  by (simp_all add: pinned_digest_def sample_new_authorization sample_networks)

lemma sample_standard_offline:
  "standard_run sample_pkg (offline_scheme s) (sample_requirements n amount) 10087
      \<lparr>ai_Address = ''0x9be8Df37C788B244cFc28E46654aD5Ec28a880AF'', ai_Name = ''USDC'',
          ai_Version = ''2'', ai_Decimals = 6\<rparr> 1000
      ''0x0101010101010101010101010101010101010101010101010101010101010101'' before
   = (case SignTypedData s sample_domain typed_data_types ''TransferWithAuthorization''
             (typed_data_message sample_pkg (sample_authorization ''1000''\<lparr>From := Address s\<rparr>)) of
        Inl e \<Rightarrow> Return (Inl (WrapError (ErrFailedToSignAuthorization sample_pkg @ '': '') e))
                   (before @ [SignTypedDataCall sample_domain
                       (typed_data_message sample_pkg (sample_authorization ''1000''\<lparr>From := Address s\<rparr>))])
      | Inr sig \<Rightarrow> Return (Inr (payload_of sig sample_pkg (sample_authorization ''1000''\<lparr>From := Address s\<rparr>)))
                   (before @ [SignTypedDataCall sample_domain
                       (typed_data_message sample_pkg (sample_authorization ''1000''\<lparr>From := Address s\<rparr>))]))"
  unfolding standard_run_def sample_new_authorization
  by (simp add: standard_signing_def signAuthorization_def offline_scheme_def extra_or_def
      sample_requirements_def sample_domain_def split: sum.splits)

lemma sample_standard_online:
  "standard_run sample_pkg (online_scheme s) (sample_requirements n amount) 10087
      \<lparr>ai_Address = ''0x9be8Df37C788B244cFc28E46654aD5Ec28a880AF'', ai_Name = ''USDC'',
          ai_Version = ''2'', ai_Decimals = 6\<rparr> 1000
      ''0x0101010101010101010101010101010101010101010101010101010101010101'' before
   = (case SignDigest s (authorization_digest sample_pkg
                (sample_authorization ''1000''\<lparr>From := Address s\<rparr>) 1000 1700000000 1700003600
                chain_domain_separator) of
        Inl e \<Rightarrow> Return (Inl (WrapError (ErrFailedToSignAuthorization sample_pkg @ '': '') e))
                   (before @ [CallContractCall (HexToAddress ''0x9be8Df37C788B244cFc28E46654aD5Ec28a880AF'')
                                 (take 4 (Keccak256 sample_pkg ''DOMAIN_SEPARATOR()'')),
                              SignDigestCall (authorization_digest sample_pkg
                                (sample_authorization ''1000''\<lparr>From := Address s\<rparr>) 1000 1700000000
                                1700003600 chain_domain_separator)])
      | Inr sig \<Rightarrow> Return (Inr (payload_of sig sample_pkg (sample_authorization ''1000''\<lparr>From := Address s\<rparr>)))
                   (before @ [CallContractCall (HexToAddress ''0x9be8Df37C788B244cFc28E46654aD5Ec28a880AF'')
                                 (take 4 (Keccak256 sample_pkg ''DOMAIN_SEPARATOR()'')),
                              SignDigestCall (authorization_digest sample_pkg
                                (sample_authorization ''1000''\<lparr>From := Address s\<rparr>) 1000 1700000000
                                1700003600 chain_domain_separator)]))"
proof -
  have n: "SetString (Value (sample_authorization ''1000'')) = Some 1000"
    "SetString (ValidAfter (sample_authorization ''1000'')) = Some 1700000000"
    "SetString (ValidBefore (sample_authorization ''1000'')) = Some 1700003600"
    by (simp_all add: sample_authorization_def sample_numbers)
  have q: "queryDomainSeparator sample_pkg (\<lambda>addr callData. Inr chain_domain_separator)
       ''0x9be8Df37C788B244cFc28E46654aD5Ec28a880AF''
     = (Inr chain_domain_separator,
        [CallContractCall (HexToAddress ''0x9be8Df37C788B244cFc28E46654aD5Ec28a880AF'')
           (take 4 (Keccak256 sample_pkg ''DOMAIN_SEPARATOR()''))])"
    by (simp add: queryDomainSeparator_def Let_def chain_domain_separator_def)
  have w: "signWithDomainSeparator sample_pkg (online_scheme s)
       (sample_authorization ''1000''\<lparr>From := Address s\<rparr>) chain_domain_separator
     = Return (SignDigest s (authorization_digest sample_pkg
                (sample_authorization ''1000''\<lparr>From := Address s\<rparr>) 1000 1700000000 1700003600
                chain_domain_separator))
         [SignDigestCall (authorization_digest sample_pkg
                (sample_authorization ''1000''\<lparr>From := Address s\<rparr>) 1000 1700000000 1700003600
                chain_domain_separator)]"
    by (simp add: signWithDomainSeparator_def signWithDomainSeparator_digest_eq n signDigest_def
        online_scheme_def)
  have e: "ethClient (online_scheme s) = Some (\<lambda>addr callData. Inr chain_domain_separator)"
    by (simp add: online_scheme_def)
  show ?thesis
    unfolding standard_run_def sample_new_authorization standard_signing_def signAuthorization_def
    by (simp add: e q w split: sum.splits)
qed

lemma sample_sign_digest:
  "SignDigest (signer (online_scheme full_signer)) d = Inr digest_signature"
  "SignDigest (signer (offline_scheme full_signer)) d = Inr digest_signature"
  "SignDigest (signer (online_scheme refusing_signer)) d = Inl signer_rejects"
  "SignDigest (signer (offline_scheme typed_only_signer)) d = Inl signer_rejects"
  "SignDigest (signer (offline_scheme refusing_signer)) d = Inl signer_rejects"
  by (simp_all add: online_scheme_def offline_scheme_def full_signer_def refusing_signer_def
      typed_only_signer_def)

lemma sample_digest_eq:
  "pinned_digest sample_pkg (online_scheme full_signer) (sample_requirements n amount) 1000
      ''0x0101010101010101010101010101010101010101010101010101010101010101''
     = sample_digest ''1000'' 1000 pinned_domain_separator"
  "pinned_digest sample_pkg (offline_scheme full_signer) (sample_requirements n amount) 1000
      ''0x0101010101010101010101010101010101010101010101010101010101010101''
     = sample_digest ''1000'' 1000 pinned_domain_separator"
  "pinned_digest sample_pkg (online_scheme refusing_signer) (sample_requirements n amount) 1000
      ''0x0101010101010101010101010101010101010101010101010101010101010101''
     = sample_digest ''1000'' 1000 pinned_domain_separator"
  "pinned_digest sample_pkg (offline_scheme typed_only_signer) (sample_requirements n amount) 1000
      ''0x0101010101010101010101010101010101010101010101010101010101010101''
     = sample_digest ''1000'' 1000 pinned_domain_separator"
  "pinned_digest sample_pkg (offline_scheme refusing_signer) (sample_requirements n amount) 1000
      ''0x0101010101010101010101010101010101010101010101010101010101010101''
     = sample_digest ''1000'' 1000 pinned_domain_separator"
  by (simp_all add: sample_pinned_digest sample_signers sample_digest_def)

lemma sample_guard:
  "Network (sample_requirements ''gatelayer_testnet'' amount) = ''gatelayer_testnet''"
  "Network (sample_requirements ''eip155:10087'' amount) \<noteq> ''gatelayer_testnet''"
  "Network (sample_requirements ''gatelayer_testnet'' amount) = pinned_network"
  "Network (sample_requirements ''eip155:10087'' amount) \<noteq> pinned_network"
  "ai_Address \<lparr>ai_Address = ''0x9be8Df37C788B244cFc28E46654aD5Ec28a880AF'', ai_Name = ''USDC'',
          ai_Version = ''2'', ai_Decimals = 6\<rparr> = pinned_asset"
  by (simp_all add: sample_requirements_def pinned_network_def pinned_asset_def)

lemma separators_differ: "chain_domain_separator \<noteq> pinned_domain_separator"
proof
  assume "chain_domain_separator = pinned_domain_separator"
  then have "hd chain_domain_separator = hd pinned_domain_separator" by simp
  then show False by (simp add: pinned_domain_separator_bytes chain_domain_separator_def)
qed

section \<open>The statements about the payment scheme\<close>

text \<open>
  Claim C1. \<open>signWithDomainSeparator\<close> hands to the signer the digest
  \<open>keccak256(0x19 || 0x01 || domainSeparator || structHash)\<close>, where \<open>structHash\<close> is
  the hash of the type hash followed by the sender, the recipient, the value and the two
  bounds of the validity window, each padded on the left with zero bytes to 32 bytes, and
  by the nonce; the type hash is the hash of the type string of
  \<open>TransferWithAuthorization\<close>. The digest is a function of the authorization and of the
  domain separator. This holds whenever the three number strings of the authorization are
  decimal integers, which is the case for every authorization that
  \<open>CreatePaymentPayload\<close> builds; on any other authorization the call panics. An
  address is encoded by its 20 bytes, a number between 0 and \<open>2^256\<close> by its 32
  big-endian bytes.
\<close>

theorem signing_digest_formula:
  "signWithDomainSeparator pkg c a domainSeparator =
     (case (SetString (Value a), SetString (ValidAfter a), SetString (ValidBefore a)) of
        (Some v, Some va, Some vb) \<Rightarrow>
          Return
            (SignDigest (signer c)
               (signing_digest pkg domainSeparator
                  (structHash pkg (HexToAddress (From a)) (HexToAddress (To a)) (Int_Bytes v)
                     (Int_Bytes va) (Int_Bytes vb) (fst (HexToBytes pkg (Nonce a))))))
            [SignDigestCall
               (signing_digest pkg domainSeparator
                  (structHash pkg (HexToAddress (From a)) (HexToAddress (To a)) (Int_Bytes v)
                     (Int_Bytes va) (Int_Bytes vb) (fst (HexToBytes pkg (Nonce a)))))]
      | _ \<Rightarrow> Panic)
   \<and> signWithDomainSeparator pkg c (new_authorization pkg c r w nonce) domainSeparator =
       Return
         (SignDigest (signer c)
            (authorization_digest pkg (new_authorization pkg c r w nonce) w
               (fst (CreateValidityWindow pkg time_Hour))
               (snd (CreateValidityWindow pkg time_Hour)) domainSeparator))
         [SignDigestCall
            (authorization_digest pkg (new_authorization pkg c r w nonce) w
               (fst (CreateValidityWindow pkg time_Hour))
               (snd (CreateValidityWindow pkg time_Hour)) domainSeparator)]
   \<and> length (HexToAddress s) = 20
   \<and> leftPad32 (HexToAddress s) = replicate 12 (CHR 0x00) @ HexToAddress s
   \<and> (0 \<le> n \<and> n < 2 ^ 256 \<longrightarrow> leftPad32 (Int_Bytes n) = be_bytes 32 (nat n))"
proof (intro conjI)
  show "signWithDomainSeparator pkg c (new_authorization pkg c r w nonce) domainSeparator =
       Return
         (SignDigest (signer c)
            (authorization_digest pkg (new_authorization pkg c r w nonce) w
               (fst (CreateValidityWindow pkg time_Hour))
               (snd (CreateValidityWindow pkg time_Hour)) domainSeparator))
         [SignDigestCall
            (authorization_digest pkg (new_authorization pkg c r w nonce) w
               (fst (CreateValidityWindow pkg time_Hour))
               (snd (CreateValidityWindow pkg time_Hour)) domainSeparator)]"
    by (rule signWithDomainSeparator_new)
  show "length (HexToAddress s) = 20" by (rule length_HexToAddress)
  then show "leftPad32 (HexToAddress s) = replicate 12 (CHR 0x00) @ HexToAddress s"
    by (simp add: leftPad32_def)
  show "0 \<le> n \<and> n < 2 ^ 256 \<longrightarrow> leftPad32 (Int_Bytes n) = be_bytes 32 (nat n)"
    using leftPad32_Int_Bytes [of n] by blast
qed (simp add: signWithDomainSeparator_def signWithDomainSeparator_digest_eq signDigest_def
    authorization_digest_def split: option.splits)

theorem signing_digest_formula_witness:
  "(0::int) \<le> 1000 \<and> (1000::int) < 2 ^ 256
   \<and> leftPad32 (Int_Bytes 1000) = be_bytes 32 (nat 1000)
   \<and> signWithDomainSeparator sample_pkg (offline_scheme full_signer) (sample_authorization ''1000'')
        pinned_domain_separator =
       Return (Inr digest_signature) [SignDigestCall (sample_digest ''1000'' 1000 pinned_domain_separator)]"
proof -
  have v: "Value (sample_authorization ''1000'') = ''1000''"
    "ValidAfter (sample_authorization ''1000'') = ''1700000000''"
    "ValidBefore (sample_authorization ''1000'') = ''1700003600''"
    by (simp_all add: sample_authorization_def)
  show ?thesis
    using signing_digest_formula [where pkg = sample_pkg and c = "offline_scheme full_signer"
        and a = "sample_authorization ''1000''" and domainSeparator = pinned_domain_separator
        and r = "sample_requirements ''gatelayer_testnet'' ''1000''" and w = 1000
        and nonce = "''0x0101010101010101010101010101010101010101010101010101010101010101''"
        and s = sample_address and n = 1000]
    by (simp add: v sample_numbers sample_digest_def authorization_digest_def offline_scheme_def
        full_signer_def)
qed

text \<open>
  Claim C2. An amount that is not a decimal integer, such as \<open>12.5\<close> or the empty
  string, is answered with the invalid-amount error before anything is signed (lemmas
  \<open>invalid_amount_rejected\<close> and \<open>fraction_and_empty_rejected\<close>). The amount
  \<open>-1\<close> is not: \<^verbatim>\<open>SetString\<close> reads an optional sign, so the call goes on, signs
  and returns a payload whose authorization has the value \<open>-1\<close>, while the digest signed
  on the pinned path encodes the absolute value 1 in the field of type \<open>uint256\<close>.
\<close>

theorem negative_amount_is_signed:
  "CreatePaymentPayload sample_pkg (offline_scheme full_signer)
       (sample_requirements ''gatelayer_testnet'' ''-1'') =
     Return (Inr \<lparr>X402Version = 2,
                  Payload = \<lparr>Signature = BytesToHex sample_pkg digest_signature,
                             Authorization = sample_authorization ''-1''\<rparr>\<rparr>)
       [SignDigestCall (sample_digest ''-1'' 1 pinned_domain_separator)]"
proof -
  let ?r = "sample_requirements ''gatelayer_testnet'' ''-1'' :: unit PaymentRequirements"
  have pre: "GetEvmChainId sample_pkg (Network ?r) = Inr 10087"
    "GetAssetInfo sample_pkg (Network ?r) (Asset ?r) =
       Inr \<lparr>ai_Address = ''0x9be8Df37C788B244cFc28E46654aD5Ec28a880AF'', ai_Name = ''USDC'',
          ai_Version = ''2'', ai_Decimals = 6\<rparr>"
    "SetString (Amount ?r) = Some (- 1)"
    "CreateNonce sample_pkg =
       Inr ''0x0101010101010101010101010101010101010101010101010101010101010101''"
    by (simp_all add: sample_requirements_def sample_networks sample_numbers)
  have d: "pinned_digest sample_pkg (offline_scheme full_signer) ?r (- 1)
      ''0x0101010101010101010101010101010101010101010101010101010101010101''
     = sample_digest ''-1'' 1 pinned_domain_separator"
    by (simp add: pinned_digest_def sample_new_authorization sample_signers sample_networks
        sample_digest_def authorization_digest_def sign_dropped)
  have a: "new_authorization sample_pkg (offline_scheme full_signer) ?r (- 1)
      ''0x0101010101010101010101010101010101010101010101010101010101010101''
     = sample_authorization ''-1''"
    by (simp add: sample_new_authorization sample_signers)
  have s: "SignDigest (signer (offline_scheme full_signer)) x = Inr digest_signature" for x
    by (simp add: offline_scheme_def full_signer_def)
  have g: "Network ?r = pinned_network" "ai_Address \<lparr>ai_Address = ''0x9be8Df37C788B244cFc28E46654aD5Ec28a880AF'', ai_Name = ''USDC'',
          ai_Version = ''2'', ai_Decimals = 6\<rparr> = pinned_asset"
    by (simp_all add: sample_requirements_def pinned_network_def pinned_asset_def)
  show ?thesis
    unfolding CreatePaymentPayload_signing [OF pre] d a s g
    by (simp add: payload_of_def)
qed

text \<open>
  Claim C3, as amended. For the network \<open>gatelayer_testnet\<close> and the pinned asset
  address, the first thing \<open>CreatePaymentPayload\<close> does after building the authorization
  is to ask the signer for a signature of the digest made with the pinned domain
  separator, a constant of 32 bytes that does not depend on the call; no contract call
  comes before it. When the signer signs this digest, the payload carries that signature
  and the run makes no contract call. When the signer refuses, the run continues with the
  standard signing.
\<close>

theorem pinned_separator_signed_first:
  assumes "GetEvmChainId pkg (Network r) = Inr cid"
    and "GetAssetInfo pkg (Network r) (Asset r) = Inr ai"
    and "SetString (Amount r) = Some v"
    and "CreateNonce pkg = Inr nonce"
    and "Network r = ''gatelayer_testnet''"
    and "ai_Address ai = ''0x9be8Df37C788B244cFc28E46654aD5Ec28a880AF''"
  shows "length pinned_domain_separator = 32
   \<and> (\<exists>res rest. CreatePaymentPayload pkg c r =
          Return res (SignDigestCall (pinned_digest pkg c r v nonce) # rest))
   \<and> (case SignDigest (signer c) (pinned_digest pkg c r v nonce) of
         Inr sig \<Rightarrow>
           CreatePaymentPayload pkg c r =
             Return (Inr (payload_of sig pkg (new_authorization pkg c r v nonce)))
               [SignDigestCall (pinned_digest pkg c r v nonce)]
           \<and> chain_queries (CreatePaymentPayload pkg c r) = 0
       | Inl err \<Rightarrow>
           CreatePaymentPayload pkg c r =
             standard_run pkg c r cid ai v nonce [SignDigestCall (pinned_digest pkg c r v nonce)])"
proof -
  note run = CreatePaymentPayload_signing [OF assms(1-4)]
  have g: "Network r = pinned_network \<and> ai_Address ai = pinned_asset"
    using assms(5,6) by (simp add: pinned_constants)
  show ?thesis
  proof (cases "SignDigest (signer c) (pinned_digest pkg c r v nonce)")
    case (Inr sig)
    then show ?thesis using run g
      by (simp add: length_pinned_domain_separator chain_queries_single)
  next
    case (Inl err)
    obtain res evs where "standard_run pkg c r cid ai v nonce
        [SignDigestCall (pinned_digest pkg c r v nonce)]
        = Return res ([SignDigestCall (pinned_digest pkg c r v nonce)] @ evs)"
      using standard_run_result [of pkg c r cid ai v nonce] by blast
    then show ?thesis using Inl run g
      by (simp add: length_pinned_domain_separator)
  qed
qed

theorem pinned_separator_signed_first_witness:
  "GetEvmChainId sample_pkg (Network (sample_requirements ''gatelayer_testnet'' ''1000'')) = Inr 10087
   \<and> GetAssetInfo sample_pkg (Network (sample_requirements ''gatelayer_testnet'' ''1000''))
        (Asset (sample_requirements ''gatelayer_testnet'' ''1000'')) =
      Inr \<lparr>ai_Address = ''0x9be8Df37C788B244cFc28E46654aD5Ec28a880AF'', ai_Name = ''USDC'',
           ai_Version = ''2'', ai_Decimals = 6\<rparr>
   \<and> SetString (Amount (sample_requirements ''gatelayer_testnet'' ''1000'')) = Some 1000
   \<and> CreateNonce sample_pkg =
        Inr ''0x0101010101010101010101010101010101010101010101010101010101010101''
   \<and> CreatePaymentPayload sample_pkg (online_scheme full_signer)
        (sample_requirements ''gatelayer_testnet'' ''1000'') =
      Return (Inr (payload_of digest_signature sample_pkg (sample_authorization ''1000'')))
        [SignDigestCall (sample_digest ''1000'' 1000 pinned_domain_separator)]
   \<and> chain_queries (CreatePaymentPayload sample_pkg (online_scheme full_signer)
        (sample_requirements ''gatelayer_testnet'' ''1000'')) = 0"
  using pinned_separator_signed_first [OF sample_preflight(1,2,5) sample_networks(5)
      sample_guard(1), of "online_scheme full_signer"]
  by (simp add: sample_preflight sample_networks sample_digest_eq sample_sign_digest
      sample_new_authorization sample_signers chain_queries_single)

text \<open>
  Claim C3 as it was stated fails: with a chain connection and a signer that refuses, a
  call for the pinned network and asset makes one contract call for the domain separator
  and then asks for a signature of the digest made with the separator the chain
  answered, which is not the pinned one.
\<close>

theorem fallback_queries_the_chain:
  "CreatePaymentPayload sample_pkg (online_scheme refusing_signer)
        (sample_requirements ''gatelayer_testnet'' ''1000'') =
      Return (Inl (WrapError ''failed to sign authorization: '' signer_rejects))
        [SignDigestCall (sample_digest ''1000'' 1000 pinned_domain_separator),
         CallContractCall (HexToAddress ''0x9be8Df37C788B244cFc28E46654aD5Ec28a880AF'')
           (take 4 (Keccak256 sample_pkg ''DOMAIN_SEPARATOR()'')),
         SignDigestCall (sample_digest ''1000'' 1000 chain_domain_separator)]
   \<and> chain_queries (CreatePaymentPayload sample_pkg (online_scheme refusing_signer)
        (sample_requirements ''gatelayer_testnet'' ''1000'')) = 1
   \<and> chain_domain_separator \<noteq> pinned_domain_separator"
proof -
  have run: "CreatePaymentPayload sample_pkg (online_scheme refusing_signer)
        (sample_requirements ''gatelayer_testnet'' ''1000'') =
      Return (Inl (WrapError ''failed to sign authorization: '' signer_rejects))
        [SignDigestCall (sample_digest ''1000'' 1000 pinned_domain_separator),
         CallContractCall (HexToAddress ''0x9be8Df37C788B244cFc28E46654aD5Ec28a880AF'')
           (take 4 (Keccak256 sample_pkg ''DOMAIN_SEPARATOR()'')),
         SignDigestCall (sample_digest ''1000'' 1000 chain_domain_separator)]"
    unfolding CreatePaymentPayload_signing [OF sample_preflight(1,2,5) sample_networks(5)]
      sample_digest_eq sample_sign_digest sample_standard_online
    by (simp add: sample_guard sample_signers sample_digest_def refusing_signer_def sample_pkg_def
        pinned_network_def pinned_asset_def)
  show ?thesis
    unfolding run
    by (simp add: chain_queries_def events_of_def is_chain_query_def separators_differ)
qed

text \<open>
  Claim C7, as amended. Once the network, the asset, the amount and the nonce are
  resolved, \<open>CreatePaymentPayload\<close> returns, it has asked the signer at least once, and
  the answer of the signer to the last request decides the result: an error of the signer
  is returned wrapped in the failed-to-sign error, and a signature is returned in the
  payload, so that the signature of a payload is always one the signer gave.
\<close>

theorem signer_answer_decides:
  assumes "GetEvmChainId pkg (Network r) = Inr cid"
    and "GetAssetInfo pkg (Network r) (Asset r) = Inr ai"
    and "SetString (Amount r) = Some v"
    and "CreateNonce pkg = Inr nonce"
  shows "\<exists>res evs. CreatePaymentPayload pkg c r = Return res evs \<and> evs \<noteq> []
     \<and> (case signer_answer (signer c) (last evs) of
           None \<Rightarrow> False
         | Some (Inl e) \<Rightarrow> res = Inl (WrapError (ErrFailedToSignAuthorization pkg @ '': '') e)
         | Some (Inr sig) \<Rightarrow> res = Inr (payload_of sig pkg (new_authorization pkg c r v nonce)))"
proof -
  note run = CreatePaymentPayload_signing [OF assms]
  let ?d = "pinned_digest pkg c r v nonce"
  have std: "\<exists>res evs. standard_run pkg c r cid ai v nonce before = Return res evs \<and> evs \<noteq> []
     \<and> (case signer_answer (signer c) (last evs) of
           None \<Rightarrow> False
         | Some (Inl e) \<Rightarrow> res = Inl (WrapError (ErrFailedToSignAuthorization pkg @ '': '') e)
         | Some (Inr sig) \<Rightarrow> res = Inr (payload_of sig pkg (new_authorization pkg c r v nonce)))"
    for before
  proof -
    obtain res evs where s: "standard_run pkg c r cid ai v nonce before = Return res (before @ evs)"
      "evs \<noteq> []"
      "(case signer_answer (signer c) (last evs) of
           None \<Rightarrow> False
         | Some (Inl e) \<Rightarrow> res = Inl (WrapError (ErrFailedToSignAuthorization pkg @ '': '') e)
         | Some (Inr sig) \<Rightarrow> res = Inr (payload_of sig pkg (new_authorization pkg c r v nonce)))"
      using standard_run_result [of pkg c r cid ai v nonce before] by blast
    then show ?thesis
      by (intro exI [of _ res] exI [of _ "before @ evs"]) simp
  qed
  show ?thesis
  proof (cases "Network r = pinned_network \<and> ai_Address ai = pinned_asset")
    case False
    then have "CreatePaymentPayload pkg c r = standard_run pkg c r cid ai v nonce []"
      by (simp only: run if_False)
    then show ?thesis using std [of "[]"] by simp
  next
    case True
    show ?thesis
    proof (cases "SignDigest (signer c) ?d")
      case (Inr sig)
      then show ?thesis using run True by (simp add: signer_answer_def)
    next
      case (Inl err)
      then show ?thesis using run True std [of "[SignDigestCall ?d]"] by simp
    qed
  qed
qed

theorem signer_answer_decides_witness:
  "GetEvmChainId sample_pkg (Network (sample_requirements ''eip155:10087'' ''1000'')) = Inr 10087
   \<and> GetAssetInfo sample_pkg (Network (sample_requirements ''eip155:10087'' ''1000''))
        (Asset (sample_requirements ''eip155:10087'' ''1000'')) =
      Inr \<lparr>ai_Address = ''0x9be8Df37C788B244cFc28E46654aD5Ec28a880AF'', ai_Name = ''USDC'',
           ai_Version = ''2'', ai_Decimals = 6\<rparr>
   \<and> SetString (Amount (sample_requirements ''eip155:10087'' ''1000'')) = Some 1000
   \<and> CreateNonce sample_pkg =
        Inr ''0x0101010101010101010101010101010101010101010101010101010101010101''
   \<and> CreatePaymentPayload sample_pkg (offline_scheme refusing_signer)
        (sample_requirements ''eip155:10087'' ''1000'') =
      Return (Inl (WrapError ''failed to sign authorization: '' signer_rejects))
        [SignTypedDataCall sample_domain
           (typed_data_message sample_pkg (sample_authorization ''1000''))]
   \<and> signer_answer (signer (offline_scheme refusing_signer))
        (SignTypedDataCall sample_domain
           (typed_data_message sample_pkg (sample_authorization ''1000''))) =
      Some (Inl signer_rejects)"
proof -
  have run: "CreatePaymentPayload sample_pkg (offline_scheme refusing_signer)
        (sample_requirements ''eip155:10087'' ''1000'') =
      Return (Inl (WrapError ''failed to sign authorization: '' signer_rejects))
        [SignTypedDataCall sample_domain
           (typed_data_message sample_pkg (sample_authorization ''1000''))]"
    unfolding CreatePaymentPayload_signing [OF sample_preflight(3,4,5) sample_networks(5)]
      sample_standard_offline
    by (simp add: sample_guard sample_signers refusing_signer_def sample_pkg_def)
  show ?thesis
    using signer_answer_decides [OF sample_preflight(3,4,5) sample_networks(5),
        of "offline_scheme refusing_signer"]
    unfolding run
    by (simp add: sample_preflight sample_networks signer_answer_def offline_scheme_def
        refusing_signer_def)
qed

text \<open>
  Claim C7 as it was stated fails: on the pinned path the error of \<open>SignDigest\<close> is
  dropped. A signer that refuses every digest and signs typed data is asked twice, and
  the call returns a payload; the refusal does not reach the caller.
\<close>

theorem digest_refusal_is_swallowed:
  "SignDigest typed_only_signer = (\<lambda>digest. Inl signer_rejects)
   \<and> CreatePaymentPayload sample_pkg (offline_scheme typed_only_signer)
        (sample_requirements ''gatelayer_testnet'' ''1000'') =
      Return (Inr \<lparr>X402Version = 2,
                   Payload = \<lparr>Signature = BytesToHex sample_pkg typed_signature,
                              Authorization = sample_authorization ''1000''\<rparr>\<rparr>)
        [SignDigestCall (sample_digest ''1000'' 1000 pinned_domain_separator),
         SignTypedDataCall sample_domain
           (typed_data_message sample_pkg (sample_authorization ''1000''))]"
proof -
  have "CreatePaymentPayload sample_pkg (offline_scheme typed_only_signer)
        (sample_requirements ''gatelayer_testnet'' ''1000'') =
      Return (Inr \<lparr>X402Version = 2,
                   Payload = \<lparr>Signature = BytesToHex sample_pkg typed_signature,
                              Authorization = sample_authorization ''1000''\<rparr>\<rparr>)
        [SignDigestCall (sample_digest ''1000'' 1000 pinned_domain_separator),
         SignTypedDataCall sample_domain
           (typed_data_message sample_pkg (sample_authorization ''1000''))]"
    unfolding CreatePaymentPayload_signing [OF sample_preflight(1,2,5) sample_networks(5)]
      sample_digest_eq sample_sign_digest sample_standard_offline
    by (simp add: sample_guard sample_signers typed_only_signer_def payload_of_def
        pinned_network_def pinned_asset_def)
  then show ?thesis by (simp add: typed_only_signer_def)
qed

text \<open>
  Claim C9. The run of \<open>CreatePaymentPayload\<close> begins with a digest handed to the signer
  exactly when the network string is \<open>gatelayer_testnet\<close> and the address of the
  resolved asset is the pinned address, both compared as strings. In every other case
  the run is the standard signing alone: it begins with the contract call when a chain
  connection is set, and consists of one request to sign typed data otherwise. The
  network \<open>eip155:10087\<close> is configured with the same chain id and the same default asset
  as \<open>gatelayer_testnet\<close>.
\<close>

theorem pinned_path_guard:
  assumes "GetEvmChainId pkg (Network r) = Inr cid"
    and "GetAssetInfo pkg (Network r) (Asset r) = Inr ai"
    and "SetString (Amount r) = Some v"
    and "CreateNonce pkg = Inr nonce"
  shows "(starts_with_digest (CreatePaymentPayload pkg c r) \<longleftrightarrow>
            Network r = ''gatelayer_testnet''
            \<and> ai_Address ai = ''0x9be8Df37C788B244cFc28E46654aD5Ec28a880AF'')
   \<and> (\<not> (Network r = ''gatelayer_testnet''
           \<and> ai_Address ai = ''0x9be8Df37C788B244cFc28E46654aD5Ec28a880AF'') \<longrightarrow>
        CreatePaymentPayload pkg c r = standard_run pkg c r cid ai v nonce []
        \<and> (\<exists>res evs. CreatePaymentPayload pkg c r = Return res evs
              \<and> (case ethClient c of
                    None \<Rightarrow> (\<exists>dom msg. evs = [SignTypedDataCall dom msg])
                  | Some call \<Rightarrow> (\<exists>a d rest. evs = CallContractCall a d # rest))))
   \<and> NetworkConfigs ''eip155:10087'' = NetworkConfigs ''gatelayer_testnet''
   \<and> NetworkConfigs ''gatelayer_testnet'' =
        Some \<lparr>nc_ChainID = 10087,
              nc_DefaultAsset = \<lparr>ai_Address = ''0x9be8Df37C788B244cFc28E46654aD5Ec28a880AF'',
                                 ai_Name = ''USDC'', ai_Version = ''2'', ai_Decimals = 6\<rparr>\<rparr>"
proof -
  note run = CreatePaymentPayload_signing [OF assms]
  let ?g = "Network r = ''gatelayer_testnet''
            \<and> ai_Address ai = ''0x9be8Df37C788B244cFc28E46654aD5Ec28a880AF''"
  obtain res evs where s: "standard_run pkg c r cid ai v nonce [] = Return res ([] @ evs)"
    "(case ethClient c of
           None \<Rightarrow> (\<exists>dom msg. evs = [SignTypedDataCall dom msg])
         | Some call \<Rightarrow> (\<exists>a d rest. evs = CallContractCall a d # rest))"
    using standard_run_result [of pkg c r cid ai v nonce "[]"] by blast
  have nd: "\<not> starts_with_digest (standard_run pkg c r cid ai v nonce [])"
    using s by (auto simp: starts_with_digest_def events_of_def split: option.splits)
  have a: "starts_with_digest (CreatePaymentPayload pkg c r) \<longleftrightarrow> ?g"
  proof (cases ?g)
    case False
    then have "\<not> (Network r = pinned_network \<and> ai_Address ai = pinned_asset)"
      by (simp add: pinned_constants)
    then have "CreatePaymentPayload pkg c r = standard_run pkg c r cid ai v nonce []"
      by (simp only: run if_False)
    then show ?thesis using False nd by simp
  next
    case True
    obtain res' evs' where "standard_run pkg c r cid ai v nonce
        [SignDigestCall (pinned_digest pkg c r v nonce)]
        = Return res' ([SignDigestCall (pinned_digest pkg c r v nonce)] @ evs')"
      using standard_run_result [of pkg c r cid ai v nonce] by blast
    then show ?thesis using run True
      by (simp add: pinned_constants starts_with_digest_def events_of_def split: sum.splits)
  qed
  have b: "\<not> ?g \<longrightarrow>
        CreatePaymentPayload pkg c r = standard_run pkg c r cid ai v nonce []
        \<and> (\<exists>res evs. CreatePaymentPayload pkg c r = Return res evs
              \<and> (case ethClient c of
                    None \<Rightarrow> (\<exists>dom msg. evs = [SignTypedDataCall dom msg])
                  | Some call \<Rightarrow> (\<exists>a d rest. evs = CallContractCall a d # rest)))"
  proof
    assume "\<not> ?g"
    then have "\<not> (Network r = pinned_network \<and> ai_Address ai = pinned_asset)"
      by (simp add: pinned_constants)
    then have "CreatePaymentPayload pkg c r = standard_run pkg c r cid ai v nonce []"
      by (simp only: run if_False)
    then show "CreatePaymentPayload pkg c r = standard_run pkg c r cid ai v nonce []
        \<and> (\<exists>res evs. CreatePaymentPayload pkg c r = Return res evs
              \<and> (case ethClient c of
                    None \<Rightarrow> (\<exists>dom msg. evs = [SignTypedDataCall dom msg])
                  | Some call \<Rightarrow> (\<exists>a d rest. evs = CallContractCall a d # rest)))"
      using s by simp
  qed
  have c: "NetworkConfigs ''eip155:10087'' = NetworkConfigs ''gatelayer_testnet''"
    "NetworkConfigs ''gatelayer_testnet'' =
        Some \<lparr>nc_ChainID = 10087,
              nc_DefaultAsset = \<lparr>ai_Address = ''0x9be8Df37C788B244cFc28E46654aD5Ec28a880AF'',
                                 ai_Name = ''USDC'', ai_Version = ''2'', ai_Decimals = 6\<rparr>\<rparr>"
    by (simp_all add: NetworkConfigs_def ChainIDGateLayerTestnet_def DefaultDecimals_def)
  show ?thesis using a b c by blast
qed

theorem pinned_path_guard_witness:
  "GetEvmChainId sample_pkg (Network (sample_requirements ''eip155:10087'' ''1000'')) = Inr 10087
   \<and> GetAssetInfo sample_pkg (Network (sample_requirements ''eip155:10087'' ''1000''))
        (Asset (sample_requirements ''eip155:10087'' ''1000'')) =
      Inr \<lparr>ai_Address = ''0x9be8Df37C788B244cFc28E46654aD5Ec28a880AF'', ai_Name = ''USDC'',
           ai_Version = ''2'', ai_Decimals = 6\<rparr>
   \<and> SetString (Amount (sample_requirements ''eip155:10087'' ''1000'')) = Some 1000
   \<and> CreateNonce sample_pkg =
        Inr ''0x0101010101010101010101010101010101010101010101010101010101010101''
   \<and> \<not> starts_with_digest (CreatePaymentPayload sample_pkg (offline_scheme full_signer)
          (sample_requirements ''eip155:10087'' ''1000''))
   \<and> CreatePaymentPayload sample_pkg (offline_scheme full_signer)
        (sample_requirements ''eip155:10087'' ''1000'') =
      Return (Inr (payload_of typed_signature sample_pkg (sample_authorization ''1000'')))
        [SignTypedDataCall sample_domain
           (typed_data_message sample_pkg (sample_authorization ''1000''))]"
proof -
  have run: "CreatePaymentPayload sample_pkg (offline_scheme full_signer)
        (sample_requirements ''eip155:10087'' ''1000'') =
      Return (Inr (payload_of typed_signature sample_pkg (sample_authorization ''1000'')))
        [SignTypedDataCall sample_domain
           (typed_data_message sample_pkg (sample_authorization ''1000''))]"
    unfolding CreatePaymentPayload_signing [OF sample_preflight(3,4,5) sample_networks(5)]
      sample_standard_offline
    by (simp add: sample_guard sample_signers full_signer_def)
  have "\<not> starts_with_digest (CreatePaymentPayload sample_pkg (offline_scheme full_signer)
          (sample_requirements ''eip155:10087'' ''1000''))"
    using pinned_path_guard [OF sample_preflight(3,4,5) sample_networks(5),
        of "offline_scheme full_signer"] sample_guard(2) [of "''1000''"]
    by blast
  then show ?thesis
    using run by (simp add: sample_preflight sample_networks)
qed

end
